theory Spec2Isabelle
  imports Complex_Main "HOL-Library.Log_Nat" "HOL-Library.Sublist"
begin

section \<open>Machine arithmetic used by \<open>dataset.cpp\<close>\<close>

subsection \<open>\<open>size_t\<close>: 64-bit unsigned, wrapping\<close>

text \<open>
  Row counts, column counts, block indices and offsets are \<open>size_t\<close>. They are modelled as
  natural numbers below \<open>2 ^ 64\<close>, with the wrap-around of every operation written out.
\<close>

definition size_mul :: "nat \<Rightarrow> nat \<Rightarrow> nat" where
  "size_mul a b = (a * b) mod 2 ^ 64"

definition size_add :: "nat \<Rightarrow> nat \<Rightarrow> nat" where
  "size_add a b = (a + b) mod 2 ^ 64"

definition size_sub :: "nat \<Rightarrow> nat \<Rightarrow> nat" where
  "size_sub a b = (a + 2 ^ 64 - b mod 2 ^ 64) mod 2 ^ 64"

subsection \<open>Single-precision arithmetic of the block size\<close>

text \<open>
  \<open>DataSlice::initialize\<close> computes \<open>std::ceil(float(num_rows) / num_blocks)\<close>: both operands
  are converted to \<open>float\<close>, the division is a \<open>float\<close> division and \<open>std::ceil\<close> is the
  \<open>float\<close> overload. A finite \<open>float\<close> is a rational number with a significand of 24 bits;
  \<open>to_float\<close> rounds a rational to the nearest such number, ties to the even significand
  (the IEEE 754 default). The exponent range of \<open>float\<close> is not modelled: the values that
  occur here lie between \<open>2 ^ - 64\<close> and \<open>2 ^ 64\<close>, far inside it.
\<close>

definition float_exponent :: "rat \<Rightarrow> int" where
  "float_exponent x =
     (let (p, q) = quotient_of x; d = bitlen p - bitlen q
      in if 2 powi d \<le> x then d else d - 1)"

definition round_half_even :: "rat \<Rightarrow> int" where
  "round_half_even y =
     (let f = \<lfloor>y\<rfloor>; r = y - of_int f
      in if r < 1 / 2 then f
         else if 1 / 2 < r then f + 1
         else if even f then f else f + 1)"

definition to_float :: "rat \<Rightarrow> rat" where
  "to_float x =
     (if x = 0 then 0
      else let s = 2 powi (float_exponent \<bar>x\<bar> - 23)
           in of_int (round_half_even (x / s)) * s)"

text \<open>
  \<open>const size_t block_size = std::ceil(float(num_rows) / num_blocks);\<close>
  For \<open>num_blocks = 0\<close> the quotient is not a number; the loop that would use the block
  size then has no iteration, and the model leaves the value at HOL's \<open>x / 0 = 0\<close>.
\<close>

definition block_size_of :: "nat \<Rightarrow> nat \<Rightarrow> nat" where
  "block_size_of num_rows num_blocks =
     nat \<lceil>to_float (to_float (of_nat num_rows) / to_float (of_nat num_blocks))\<rceil>"

subsection \<open>Table elements and their single-precision storage\<close>

text \<open>
  The elements of a block are \<open>double\<close> values: a number, an infinity or a NaN (the sign of
  zero and the payload of a NaN are not distinguished). \<open>double_to_float\<close> is the
  conversion to \<open>float\<close> (IEEE 754, round to nearest, ties to even): the significand has 24
  bits, below \<open>2 ^ - 126\<close> the representable numbers are the multiples of \<open>2 ^ - 149\<close>, and a
  number that rounds to \<open>2 ^ 128\<close> or beyond becomes an infinity.
\<close>

datatype element = Number rat | PosInf | NegInf | NaN

definition double_to_float :: "rat \<Rightarrow> element" where
  "double_to_float v =
     (if v = 0 then Number 0
      else let s = 2 powi (max (float_exponent \<bar>v\<bar> - 23) (- 149));
               r = of_int (round_half_even (v / s)) * s
           in if 2 ^ 128 \<le> r then PosInf
              else if r \<le> - (2 ^ 128) then NegInf
              else Number r)"

section \<open>Errors and results\<close>

text \<open>
  The exception classes thrown in \<open>dataset.cpp\<close>, each with its message. A call either
  returns, throws, or has undefined behaviour in C++ (a null handle dereferenced, a
  \<open>std::vector\<close> or a buffer indexed outside its bounds).
\<close>

datatype error =
    NotAvailableNumericTable string
  | EmptyNumericTable string
  | CannotOpenFile string
  | CannotReadCsv string
  | CannotLoadDataset string

datatype 'a result = Ok 'a | Throw error | Undefined

section \<open>Numeric tables and the heap\<close>

text \<open>
  The enumerators of \<open>NumericTableType\<close> named in \<open>create_numeric_table\<close>; its \<open>default:\<close>
  branch stands for every other enumerator (the declaration is in \<open>dataset.hpp\<close>).
\<close>

datatype NumericTableType =
    SyclHomogenNumericTableFloat
  | SyclHomogenNumericTableDouble
  | OtherNumericTableType

datatype AllocationFlag = doAllocate | doNotAllocate

text \<open>
  A numeric table of the external library, seen through the interface \<open>dataset.cpp\<close>
  uses: the backend it was created for, its column and row counts, and the row-major block
  of all its rows that \<open>getBlockOfRows\<close> hands out for a \<open>BlockDescriptor<double>\<close>. Reading
  converts the stored elements to \<open>double\<close>, which is exact for both backends, so the block
  holds the stored values themselves.
\<close>

record NumericTable =
  table_type :: NumericTableType
  getNumberOfColumns :: nat
  getNumberOfRows :: nat
  getBlockPtr :: "element list"

text \<open>
  Writing goes the other way: \<open>releaseBlockOfRows\<close> of a block acquired for writing stores
  the \<open>double\<close> buffer into the table, converting every element to the table's element
  type. \<open>SyclHomogenNT<float>\<close> stores \<open>float\<close>: numbers are rounded to single precision.
  \<open>SyclHomogenNT<double>\<close> stores the buffer as it is.
\<close>

fun store_element :: "NumericTableType \<Rightarrow> element \<Rightarrow> element" where
  "store_element SyclHomogenNumericTableFloat (Number v) = double_to_float v"
| "store_element t x = x"

definition releaseBlockOfRows :: "NumericTable \<Rightarrow> element list \<Rightarrow> NumericTable" where
  "releaseBlockOfRows nt buffer =
     nt\<lparr>getBlockPtr := map (store_element (table_type nt)) buffer\<rparr>"

text \<open>
  \<open>NumericTablePtr\<close> is a shared pointer: \<open>None\<close> is the null handle, \<open>Some a\<close> the table at
  address \<open>a\<close>. Two handles are reference-identical when they are equal. The heap is the
  list of the tables allocated so far; reference counts are not modelled. \<open>csv_loaded\<close>
  records the files the CSV data source has read.
\<close>

type_synonym NumericTablePtr = "nat option"

record heap =
  tables :: "NumericTable list"
  csv_loaded :: "string list"

definition deref :: "heap \<Rightarrow> NumericTablePtr \<Rightarrow> NumericTable option" where
  "deref h p =
     (case p of None \<Rightarrow> None
      | Some a \<Rightarrow> if a < length (tables h) then Some (tables h ! a) else None)"

text \<open>
  The collaborators outside the repository's sources: whether the library's
  \<open>SyclHomogenNT<T>::create\<close> returns a table for a shape (columns, rows), whether a file can
  be opened, and what \<open>FileDataSource::loadDataBlock\<close> reads from a file for the column
  counts of the target table(s): its status, the number of rows read and the block of
  parsed values for each table.
\<close>

record env =
  can_allocate :: "nat \<Rightarrow> nat \<Rightarrow> bool"
  can_open_file :: "string \<Rightarrow> bool"
  csv_source :: "string \<Rightarrow> nat list \<Rightarrow> bool \<times> nat \<times> element list list"

section \<open>\<open>NumericTableFactory\<close>\<close>

definition create_numeric_table ::
  "env \<Rightarrow> NumericTableType \<Rightarrow> nat \<Rightarrow> nat \<Rightarrow> AllocationFlag \<Rightarrow> heap \<Rightarrow> NumericTablePtr result \<times> heap"
where
  "create_numeric_table e numeric_table_type num_features num_observations memory_allocation_flag h =
     (if numeric_table_type = OtherNumericTableType
      then (Throw (NotAvailableNumericTable ''The given numeric table type is not implemented''), h)
      else if \<not> can_allocate e num_features num_observations
      then (Throw (EmptyNumericTable ''The numeric table is empty''), h)
      else (Ok (Some (length (tables h))),
            h\<lparr>tables := tables h @
               [\<lparr>table_type = numeric_table_type,
                 getNumberOfColumns = num_features,
                 getNumberOfRows = num_observations,
                 getBlockPtr = (if memory_allocation_flag = doAllocate
                                then replicate (num_features * num_observations) (Number 0)
                                else [])\<rparr>]\<rparr>))"

section \<open>\<open>DataSlice\<close>\<close>

record DataSlice =
  x_blocks :: "NumericTablePtr list"
  y_blocks :: "NumericTablePtr list"
  labeled :: bool

text \<open>
  \<open>DataSlice::copy_block\<close>. The source table is dereferenced, the whole table is read as
  one block of \<open>double\<close>, a table of \<open>end_row - start_row\<close> rows is created for the requested
  backend, its block is acquired for writing as \<open>double\<close>, \<open>std::copy\<close> moves \<open>num_elems\<close>
  elements from \<open>ptr_r + offset\<close> to \<open>ptr_w\<close>, and the write block is released into the new
  table. Reading past the end of the source block or writing past the end of the new one
  is undefined behaviour.
\<close>

definition copy_block ::
  "env \<Rightarrow> NumericTablePtr \<Rightarrow> NumericTableType \<Rightarrow> nat \<Rightarrow> nat \<Rightarrow> heap \<Rightarrow> NumericTablePtr result \<times> heap"
where
  "copy_block e numeric_table numeric_table_type block_index block_size h =
     (case deref h numeric_table of
        None \<Rightarrow> (Undefined, h)
      | Some nt \<Rightarrow>
          let num_cols = getNumberOfColumns nt;
              num_rows = getNumberOfRows nt;
              start_row = size_mul block_index block_size;
              end_row0 = size_add start_row block_size;
              end_row = (if end_row0 > num_rows then num_rows else end_row0);
              ptr_r = getBlockPtr nt
          in (case create_numeric_table e numeric_table_type num_cols
                     (size_sub end_row start_row) doAllocate h of
                (Ok numeric_table_tmp, h') \<Rightarrow>
                  (case numeric_table_tmp of
                     None \<Rightarrow> (Undefined, h')
                   | Some a \<Rightarrow>
                       let ptr_w = getBlockPtr (tables h' ! a);
                           num_elems = size_mul num_cols (size_sub end_row start_row);
                           offset = size_mul start_row num_cols
                       in if offset + num_elems \<le> length ptr_r \<and> num_elems \<le> length ptr_w
                          then (Ok numeric_table_tmp,
                                h'\<lparr>tables := (tables h')[a :=
                                   releaseBlockOfRows (tables h' ! a)
                                     (take num_elems (drop offset ptr_r) @ drop num_elems ptr_w)]\<rparr>)
                          else (Undefined, h'))
              | (Throw err, h') \<Rightarrow> (Throw err, h')
              | (Undefined, h') \<Rightarrow> (Undefined, h')))"

definition set_block ::
  "env \<Rightarrow> nat \<Rightarrow> nat \<Rightarrow> NumericTablePtr \<Rightarrow> NumericTablePtr \<Rightarrow> NumericTableType \<Rightarrow>
   DataSlice \<Rightarrow> heap \<Rightarrow> DataSlice result \<times> heap"
where
  "set_block e block_index block_size x y numeric_table_type ds h =
     (case copy_block e x numeric_table_type block_index block_size h of
        (Ok xb, h1) \<Rightarrow>
          if \<not> block_index < length (x_blocks ds) then (Undefined, h1)
          else
            let ds1 = ds\<lparr>x_blocks := (x_blocks ds)[block_index := xb]\<rparr>
            in if y \<noteq> None
               then (case copy_block e y numeric_table_type block_index block_size h1 of
                       (Ok yb, h2) \<Rightarrow>
                         if \<not> block_index < length (y_blocks ds1) then (Undefined, h2)
                         else (Ok (ds1\<lparr>y_blocks := (y_blocks ds1)[block_index := yb]\<rparr>), h2)
                     | (Throw err, h2) \<Rightarrow> (Throw err, h2)
                     | (Undefined, h2) \<Rightarrow> (Undefined, h2))
               else (Ok ds1, h1)
      | (Throw err, h1) \<Rightarrow> (Throw err, h1)
      | (Undefined, h1) \<Rightarrow> (Undefined, h1))"

text \<open>The \<open>for\<close> loop of \<open>DataSlice::initialize\<close>, from \<open>block_index\<close> on.\<close>

function initialize_loop ::
  "env \<Rightarrow> NumericTableType \<Rightarrow> nat \<Rightarrow> nat \<Rightarrow> NumericTablePtr \<Rightarrow> NumericTablePtr \<Rightarrow> nat \<Rightarrow>
   DataSlice \<Rightarrow> heap \<Rightarrow> DataSlice result \<times> heap"
where
  "initialize_loop e numeric_table_type num_blocks block_size x y block_index ds h =
     (if block_index < num_blocks
      then (case set_block e block_index block_size x y numeric_table_type ds h of
              (Ok ds', h') \<Rightarrow>
                initialize_loop e numeric_table_type num_blocks block_size x y
                  (block_index + 1) ds' h'
            | (Throw err, h') \<Rightarrow> (Throw err, h')
            | (Undefined, h') \<Rightarrow> (Undefined, h'))
      else (Ok ds, h))"
  by pat_completeness auto
termination
  by (relation "measure (\<lambda>(e, t, num_blocks, bs, x, y, block_index, ds, h). num_blocks - block_index)")
     auto

declare initialize_loop.simps [simp del]

definition initialize ::
  "env \<Rightarrow> NumericTableType \<Rightarrow> nat \<Rightarrow> NumericTablePtr \<Rightarrow> NumericTablePtr \<Rightarrow>
   DataSlice \<Rightarrow> heap \<Rightarrow> DataSlice result \<times> heap"
where
  "initialize e numeric_table_type num_blocks x y ds h =
     (if 1 = num_blocks
      then (if \<not> 0 < length (x_blocks ds) then (Undefined, h)
            else
              let ds1 = ds\<lparr>x_blocks := (x_blocks ds)[0 := x]\<rparr>
              in if y \<noteq> None
                 then (if \<not> 0 < length (y_blocks ds1) then (Undefined, h)
                       else (Ok (ds1\<lparr>y_blocks := (y_blocks ds1)[0 := y]\<rparr>), h))
                 else (Ok ds1, h))
      else (case deref h x of
              None \<Rightarrow> (Undefined, h)
            | Some xt \<Rightarrow>
                let num_rows = getNumberOfRows xt;
                    block_size = block_size_of num_rows num_blocks
                in initialize_loop e numeric_table_type num_blocks block_size x y 0 ds h))"

text \<open>
  The two constructors. The unlabeled one calls \<open>initialize\<close> without a label table; the
  default argument declared in \<open>dataset.hpp\<close> is taken to be the null handle.
\<close>

definition DataSlice_ctor_x ::
  "env \<Rightarrow> NumericTablePtr \<Rightarrow> nat \<Rightarrow> NumericTableType \<Rightarrow> heap \<Rightarrow> DataSlice result \<times> heap"
where
  "DataSlice_ctor_x e x num_blocks numeric_table_type h =
     initialize e numeric_table_type num_blocks x None
       \<lparr>x_blocks = replicate num_blocks None, y_blocks = [], labeled = False\<rparr> h"

definition DataSlice_ctor_xy ::
  "env \<Rightarrow> NumericTablePtr \<Rightarrow> NumericTablePtr \<Rightarrow> nat \<Rightarrow> NumericTableType \<Rightarrow> heap \<Rightarrow>
   DataSlice result \<times> heap"
where
  "DataSlice_ctor_xy e x y num_blocks numeric_table_type h =
     initialize e numeric_table_type num_blocks x y
       \<lparr>x_blocks = replicate num_blocks None, y_blocks = replicate num_blocks None,
        labeled = True\<rparr> h"

text \<open>\<open>nt.reset()\<close> for every handle; the vectors keep their length.\<close>

definition DataSlice_clear :: "DataSlice \<Rightarrow> DataSlice" where
  "DataSlice_clear ds =
     ds\<lparr>x_blocks := map (\<lambda>nt. None) (x_blocks ds), y_blocks := map (\<lambda>nt. None) (y_blocks ds)\<rparr>"

text \<open>
  Modelled from the spec: the default constructor \<open>DataSlice()\<close> is declared in
  \<open>dataset.hpp\<close>, which is missing; the spec says \<open>make_empty()\<close> creates a slice of zero
  blocks. The slice is taken to be unlabeled.
\<close>

definition make_empty :: DataSlice where
  "make_empty = \<lparr>x_blocks = [], y_blocks = [], labeled = False\<rparr>"

definition DataSlice_x :: "DataSlice \<Rightarrow> NumericTablePtr result" where
  "DataSlice_x ds =
     (if x_blocks ds = [] then Throw (EmptyNumericTable ''Dataset does not contain X slice'')
      else Ok (last (x_blocks ds)))"

definition DataSlice_y :: "DataSlice \<Rightarrow> NumericTablePtr result" where
  "DataSlice_y ds =
     (if y_blocks ds = [] then Throw (EmptyNumericTable ''Dataset does not contain Y slice'')
      else Ok (last (y_blocks ds)))"

text \<open>
  \<open>x_blocks_[block_index]\<close> is \<open>std::vector::operator[]\<close>: no bounds check, undefined behaviour
  for an index that is not below the size.
\<close>

definition x_block :: "DataSlice \<Rightarrow> nat \<Rightarrow> NumericTablePtr result" where
  "x_block ds block_index =
     (if x_blocks ds = [] then Throw (EmptyNumericTable ''Dataset does not contain X slice'')
      else if \<not> block_index < length (x_blocks ds) then Undefined
      else if x_blocks ds ! block_index = None
      then Throw (EmptyNumericTable ''Dataset does not contain X slice'')
      else Ok (x_blocks ds ! block_index))"

definition y_block :: "DataSlice \<Rightarrow> nat \<Rightarrow> NumericTablePtr result" where
  "y_block ds block_index =
     (if y_blocks ds = [] then Throw (EmptyNumericTable ''Dataset does not contain Y slice'')
      else if \<not> block_index < length (y_blocks ds) then Undefined
      else if y_blocks ds ! block_index = None
      then Throw (EmptyNumericTable ''Dataset does not contain Y slice'')
      else Ok (y_blocks ds ! block_index))"

text \<open>
  \<open>MergedNumericTable::create(first, second)\<close>: the library's column-wise view over two
  tables, the columns of the first followed by those of the second.
\<close>

datatype MergedNumericTable = MergedNumericTable_create NumericTablePtr NumericTablePtr

definition xy :: "DataSlice \<Rightarrow> MergedNumericTable result" where
  "xy ds =
     (if x_blocks ds = [] \<or> y_blocks ds = []
      then Throw (EmptyNumericTable ''Dataset does not contain either X or Y slices'')
      else Ok (MergedNumericTable_create (last (x_blocks ds)) (last (y_blocks ds))))"

definition xy_blocks :: "DataSlice \<Rightarrow> nat \<Rightarrow> MergedNumericTable result" where
  "xy_blocks ds block_index =
     (if \<not> block_index < length (x_blocks ds) then Undefined
      else if x_blocks ds ! block_index = None
      then Throw (EmptyNumericTable ''Dataset does not contain either X or Y slices'')
      else if \<not> block_index < length (y_blocks ds) then Undefined
      else if y_blocks ds ! block_index = None
      then Throw (EmptyNumericTable ''Dataset does not contain either X or Y slices'')
      else Ok (MergedNumericTable_create (x_blocks ds ! block_index) (y_blocks ds ! block_index)))"

definition DataSlice_empty :: "DataSlice \<Rightarrow> bool" where
  "DataSlice_empty ds =
     (if labeled ds then x_blocks ds = [] \<or> y_blocks ds = [] else x_blocks ds = [])"

section \<open>\<open>Dataset\<close>\<close>

record Dataset =
  train_slice :: DataSlice
  test_slice :: DataSlice
  full_slice :: DataSlice
  index_slice :: DataSlice
  num_responses :: nat
  num_tries :: nat
  num_features :: nat

text \<open>
  The four-slice constructor. Modelled from the spec: the member initialisers of the three
  size fields are in \<open>dataset.hpp\<close>, which is missing; the spec says they default to zero.
\<close>

definition Dataset_ctor :: "DataSlice \<Rightarrow> DataSlice \<Rightarrow> DataSlice \<Rightarrow> DataSlice \<Rightarrow> Dataset" where
  "Dataset_ctor train_slice_in test_slice_in full_slice_in index_slice_in =
     \<lparr>train_slice = train_slice_in, test_slice = test_slice_in, full_slice = full_slice_in,
      index_slice = index_slice_in, num_responses = 0, num_tries = 0, num_features = 0\<rparr>"

definition Dataset_clear :: "Dataset \<Rightarrow> Dataset" where
  "Dataset_clear d =
     d\<lparr>train_slice := DataSlice_clear (train_slice d),
       test_slice := DataSlice_clear (test_slice d),
       full_slice := DataSlice_clear (full_slice d),
       index_slice := DataSlice_clear (index_slice d)\<rparr>"

definition full :: "Dataset \<Rightarrow> DataSlice result" where
  "full d =
     (if DataSlice_empty (full_slice d)
      then Throw (EmptyNumericTable ''Full slice of the dataset is empty'')
      else Ok (full_slice d))"

definition train :: "Dataset \<Rightarrow> DataSlice result" where
  "train d =
     (if DataSlice_empty (train_slice d)
      then Throw (EmptyNumericTable ''Train slice of the dataset is empty'')
      else Ok (train_slice d))"

definition test :: "Dataset \<Rightarrow> DataSlice result" where
  "test d =
     (if DataSlice_empty (test_slice d)
      then Throw (EmptyNumericTable ''Test slice of the dataset is empty'')
      else Ok (test_slice d))"

definition index :: "Dataset \<Rightarrow> DataSlice result" where
  "index d =
     (if DataSlice_empty (index_slice d)
      then Throw (EmptyNumericTable ''Index slice of the dataset is empty'')
      else Ok (index_slice d))"

definition has_full :: "Dataset \<Rightarrow> bool" where
  "has_full d = (\<not> DataSlice_empty (full_slice d))"

definition has_train :: "Dataset \<Rightarrow> bool" where
  "has_train d = (\<not> DataSlice_empty (train_slice d))"

definition has_test :: "Dataset \<Rightarrow> bool" where
  "has_test d = (\<not> DataSlice_empty (test_slice d))"

definition full_or_train :: "Dataset \<Rightarrow> DataSlice result" where
  "full_or_train d =
     (if has_full d then full d
      else if has_train d then train d
      else Throw (EmptyNumericTable ''Full and Train slices of the dataset are empty''))"

definition full_or_test :: "Dataset \<Rightarrow> DataSlice result" where
  "full_or_test d =
     (if has_full d then full d
      else if has_test d then test d
      else Throw (EmptyNumericTable ''Full and Test slices of the dataset are empty''))"

section \<open>\<open>DatasetFromCsv\<close>\<close>

text \<open>The builder's fields; an unset path is the empty string.\<close>

record DatasetFromCsv =
  path_to_full :: string
  path_to_train :: string
  path_to_test :: string
  path_to_index :: string
  csv_num_features :: nat
  csv_num_responses :: nat
  csv_num_blocks :: nat
  csv_num_tries :: nat
  csv_labeled :: bool
  on_error_message :: string

definition regression :: "DatasetFromCsv \<Rightarrow> DatasetFromCsv" where
  "regression c = c\<lparr>csv_num_responses := 1\<rparr>"

definition unlabeled :: "DatasetFromCsv \<Rightarrow> DatasetFromCsv" where
  "unlabeled c = c\<lparr>csv_labeled := False\<rparr>"

definition on_error :: "string \<Rightarrow> DatasetFromCsv \<Rightarrow> DatasetFromCsv" where
  "on_error message c = c\<lparr>on_error_message := message\<rparr>"

text \<open>
  \<open>ds.loadDataBlock(table)\<close> of the external CSV data source: the file is read, every
  target table gets the number of rows read and the block of its parsed values, stored in
  the table's element type, and the status is returned.
\<close>

definition loadDataBlock :: "env \<Rightarrow> string \<Rightarrow> nat list \<Rightarrow> heap \<Rightarrow> bool \<times> heap" where
  "loadDataBlock e path targets h =
     (let (status, n, blocks) =
            csv_source e path (map (\<lambda>a. getNumberOfColumns (tables h ! a)) targets)
      in (status,
          h\<lparr>tables := fold (\<lambda>(a, b) ts.
                               ts[a := releaseBlockOfRows ((ts ! a)\<lparr>getNumberOfRows := n\<rparr>) b])
                         (zip targets blocks) (tables h),
            csv_loaded := csv_loaded h @ [path]\<rparr>))"

definition check_data_source_status :: "string \<Rightarrow> bool \<Rightarrow> unit result" where
  "check_data_source_status path status =
     (if \<not> status
      then Throw (CannotReadCsv (''Cannot read CSV file '' @ [CHR 0x27] @ path @ [CHR 0x27]))
      else Ok ())"

text \<open>
  The loaders call \<open>create_numeric_table\<close> with two arguments. Modelled from the spec: the
  default arguments are declared in \<open>dataset.hpp\<close>, which is missing; the spec says the
  table is sized by its columns and its rows are determined by the file, so the table is
  created with no rows and nothing allocated.
\<close>

definition load_no_response_variable ::
  "env \<Rightarrow> DatasetFromCsv \<Rightarrow> string \<Rightarrow> NumericTableType \<Rightarrow> heap \<Rightarrow> DataSlice result \<times> heap"
where
  "load_no_response_variable e c path numeric_table_type h =
     (case create_numeric_table e numeric_table_type (csv_num_features c) 0 doNotAllocate h of
        (Ok x, h1) \<Rightarrow>
          (case x of
             None \<Rightarrow> (Undefined, h1)
           | Some xa \<Rightarrow>
               let (status, h2) = loadDataBlock e path [xa] h1
               in (case check_data_source_status path status of
                     Ok u \<Rightarrow> DataSlice_ctor_x e x (csv_num_blocks c) numeric_table_type h2
                   | Throw err \<Rightarrow> (Throw err, h2)
                   | Undefined \<Rightarrow> (Undefined, h2)))
      | (Throw err, h1) \<Rightarrow> (Throw err, h1)
      | (Undefined, h1) \<Rightarrow> (Undefined, h1))"

definition load_with_response_variable ::
  "env \<Rightarrow> DatasetFromCsv \<Rightarrow> string \<Rightarrow> NumericTableType \<Rightarrow> heap \<Rightarrow> DataSlice result \<times> heap"
where
  "load_with_response_variable e c path numeric_table_type h =
     (if csv_num_features c = 0
      then (Throw (CannotLoadDataset
              (''Cannot load dataset '' @ [CHR 0x27] @ path @ [CHR 0x27]
               @ '' with responses. Number of features undefined. To load CSV dataset with responses FeaturesNumber must be specified.'')), h)
      else
        (case create_numeric_table e numeric_table_type (csv_num_features c) 0 doNotAllocate h of
           (Ok x, h1) \<Rightarrow>
             (case create_numeric_table e numeric_table_type 1 0 doNotAllocate h1 of
                (Ok y, h2) \<Rightarrow>
                  (case (x, y) of
                     (Some xa, Some ya) \<Rightarrow>
                       let (status, h3) = loadDataBlock e path [xa, ya] h2
                       in (case check_data_source_status path status of
                             Ok u \<Rightarrow> DataSlice_ctor_xy e x y (csv_num_blocks c) numeric_table_type h3
                           | Throw err \<Rightarrow> (Throw err, h3)
                           | Undefined \<Rightarrow> (Undefined, h3))
                   | _ \<Rightarrow> (Undefined, h2))
              | (Throw err, h2) \<Rightarrow> (Throw err, h2)
              | (Undefined, h2) \<Rightarrow> (Undefined, h2))
         | (Throw err, h1) \<Rightarrow> (Throw err, h1)
         | (Undefined, h1) \<Rightarrow> (Undefined, h1)))"

text \<open>
  Modelled from the spec: \<open>join_sentences\<close> is defined outside \<open>dataset.cpp\<close> and its source
  is missing; the spec says the message of \<open>CannotOpenFile\<close> includes the path and the
  configured diagnostic suffix, if any. The sentences that are not empty are put one
  after the other, each closed by a full stop and a space.
\<close>

definition join_sentences :: "string list \<Rightarrow> string" where
  "join_sentences sentences =
     concat (map (\<lambda>sentence. sentence @ ''. '') (filter (\<lambda>sentence. sentence \<noteq> []) sentences))"

definition load_slice ::
  "env \<Rightarrow> DatasetFromCsv \<Rightarrow> string \<Rightarrow> NumericTableType \<Rightarrow> heap \<Rightarrow> DataSlice result \<times> heap"
where
  "load_slice e c path numeric_table_type h =
     (if path = [] then (Ok make_empty, h)
      else if \<not> can_open_file e path
      then (Throw (CannotOpenFile
              (join_sentences
                 [''Cannot open dataset file '' @ [CHR 0x27] @ path @ [CHR 0x27],
                  on_error_message c])), h)
      else if csv_labeled c \<and> 0 < csv_num_responses c
      then load_with_response_variable e c path numeric_table_type h
      else load_no_response_variable e c path numeric_table_type h)"

definition load :: "env \<Rightarrow> DatasetFromCsv \<Rightarrow> NumericTableType \<Rightarrow> heap \<Rightarrow> Dataset result \<times> heap" where
  "load e c numeric_table_type h =
     (case load_slice e c (path_to_train c) numeric_table_type h of
        (Ok train_slice_v, h1) \<Rightarrow>
          (case load_slice e c (path_to_test c) numeric_table_type h1 of
             (Ok test_slice_v, h2) \<Rightarrow>
               (case load_slice e c (path_to_full c) numeric_table_type h2 of
                  (Ok full_slice_v, h3) \<Rightarrow>
                    (case load_slice e c (path_to_index c) numeric_table_type h3 of
                       (Ok index_slice_v, h4) \<Rightarrow>
                         (Ok ((Dataset_ctor train_slice_v test_slice_v full_slice_v index_slice_v)
                                \<lparr>num_responses := csv_num_responses c,
                                 num_tries := csv_num_tries c,
                                 num_features := csv_num_features c\<rparr>), h4)
                     | (Throw err, h4) \<Rightarrow> (Throw err, h4)
                     | (Undefined, h4) \<Rightarrow> (Undefined, h4))
                | (Throw err, h3) \<Rightarrow> (Throw err, h3)
                | (Undefined, h3) \<Rightarrow> (Undefined, h3))
           | (Throw err, h2) \<Rightarrow> (Throw err, h2)
           | (Undefined, h2) \<Rightarrow> (Undefined, h2))
      | (Throw err, h1) \<Rightarrow> (Throw err, h1)
      | (Undefined, h1) \<Rightarrow> (Undefined, h1))"

section \<open>Notions used to state the properties\<close>

text \<open>
  A table is well formed when its block holds rows times columns elements and the table
  fits a 64-bit address space, so that all its sizes are \<open>size_t\<close> values.
\<close>

definition well_formed :: "NumericTable \<Rightarrow> bool" where
  "well_formed nt =
     (length (getBlockPtr nt) = getNumberOfRows nt * getNumberOfColumns nt
      \<and> getNumberOfRows nt * getNumberOfColumns nt < 2 ^ 64
      \<and> getNumberOfRows nt < 2 ^ 64 \<and> getNumberOfColumns nt < 2 ^ 64)"

text \<open>
  A table is well typed when every element it holds is a value of its element type:
  storing it again leaves it as it is.
\<close>

definition well_typed :: "NumericTable \<Rightarrow> bool" where
  "well_typed nt = list_all (\<lambda>x. store_element (table_type nt) x = x) (getBlockPtr nt)"

text \<open>
  The table \<open>copy_block\<close> builds for the rows from \<open>start_row\<close> on, \<open>n\<close> of them: the source
  elements, stored in the element type of the requested backend.
\<close>

definition block_table :: "NumericTableType \<Rightarrow> NumericTable \<Rightarrow> nat \<Rightarrow> nat \<Rightarrow> NumericTable" where
  "block_table t nt start_row n =
     \<lparr>table_type = t, getNumberOfColumns = getNumberOfColumns nt, getNumberOfRows = n,
      getBlockPtr = map (store_element t)
                      (take (getNumberOfColumns nt * n)
                         (drop (start_row * getNumberOfColumns nt) (getBlockPtr nt)))\<rparr>"

text \<open>Number of rows \<open>copy_block\<close> gives block \<open>j\<close> of a table of \<open>R\<close> rows.\<close>

definition block_rows :: "nat \<Rightarrow> nat \<Rightarrow> nat \<Rightarrow> nat" where
  "block_rows R bs j = min (j * bs + bs) R - j * bs"

text \<open>The loop invariant: the first \<open>i\<close> handles refer to the blocks of the table \<open>nt\<close>.\<close>

definition blocks_done ::
  "heap \<Rightarrow> NumericTablePtr list \<Rightarrow> NumericTableType \<Rightarrow> NumericTable \<Rightarrow> nat \<Rightarrow> nat \<Rightarrow> bool"
where
  "blocks_done h blocks t nt bs i =
     (\<forall>j<i. deref h (blocks ! j)
              = Some (block_table t nt (j * bs) (block_rows (getNumberOfRows nt) bs j)))"

text \<open>
  The handles \<open>blocks\<close> partition the rows of \<open>nt\<close> into contiguous chunks: every block but
  the last has \<open>chunk\<close> rows, the last one has the remaining rows, block \<open>j\<close> is a table of
  the backend \<open>t\<close> that holds the rows of \<open>nt\<close> from row \<open>j * chunk\<close> on, stored in its
  element type, and the row counts add up to the rows of \<open>nt\<close>.
\<close>

definition row_partition ::
  "heap \<Rightarrow> NumericTablePtr list \<Rightarrow> NumericTableType \<Rightarrow> NumericTable \<Rightarrow> nat \<Rightarrow> bool"
where
  "row_partition h blocks t nt chunk =
     (list_all
        (\<lambda>j. case deref h (blocks ! j) of
               None \<Rightarrow> False
             | Some tb \<Rightarrow>
                 getNumberOfRows tb =
                   (if j < length blocks - 1 then chunk
                    else getNumberOfRows nt - (length blocks - 1) * chunk)
                 \<and> getNumberOfColumns tb = getNumberOfColumns nt
                 \<and> table_type tb = t
                 \<and> getBlockPtr tb =
                     map (store_element t)
                       (take (getNumberOfColumns nt * getNumberOfRows tb)
                          (drop (j * chunk * getNumberOfColumns nt) (getBlockPtr nt))))
        [0..<length blocks]
      \<and> sum_list
          (map (\<lambda>j. case deref h (blocks ! j) of None \<Rightarrow> 0 | Some tb \<Rightarrow> getNumberOfRows tb)
             [0..<length blocks])
        = getNumberOfRows nt)"

section \<open>Concrete inputs\<close>

text \<open>Slices and datasets on which the properties below are evaluated.\<close>

definition slice_one :: DataSlice where
  "slice_one = \<lparr>x_blocks = [Some 0], y_blocks = [], labeled = False\<rparr>"

definition slice_two :: DataSlice where
  "slice_two = \<lparr>x_blocks = [Some 1], y_blocks = [Some 2], labeled = True\<rparr>"

definition env_train_only :: env where
  "env_train_only =
     \<lparr>can_allocate = (\<lambda>c r. c * r < 2 ^ 32),
      can_open_file = (\<lambda>p. p = ''train.csv''),
      csv_source =
        (\<lambda>p cols. (True, 2,
           [[Number 1, Number 2, Number 3, Number 4, Number 5, Number 6],
            [Number 7, Number 8]]))\<rparr>"

definition csv_config :: DatasetFromCsv where
  "csv_config =
     \<lparr>path_to_full = [], path_to_train = ''train.csv'', path_to_test = [], path_to_index = [],
      csv_num_features = 3, csv_num_responses = 1, csv_num_blocks = 1, csv_num_tries = 0,
      csv_labeled = True, on_error_message = ''Run the download script''\<rparr>"

definition empty_heap :: heap where
  "empty_heap = \<lparr>tables = [], csv_loaded = []\<rparr>"

definition loaded_dataset :: Dataset where
  "loaded_dataset =
     \<lparr>train_slice = \<lparr>x_blocks = [Some 0], y_blocks = [Some 1], labeled = True\<rparr>,
      test_slice = make_empty, full_slice = make_empty, index_slice = make_empty,
      num_responses = 1, num_tries = 0, num_features = 3\<rparr>"

definition loaded_heap :: heap where
  "loaded_heap =
     \<lparr>tables =
        [\<lparr>table_type = SyclHomogenNumericTableDouble, getNumberOfColumns = 3,
          getNumberOfRows = 2,
          getBlockPtr = [Number 1, Number 2, Number 3, Number 4, Number 5, Number 6]\<rparr>,
         \<lparr>table_type = SyclHomogenNumericTableDouble, getNumberOfColumns = 1,
          getNumberOfRows = 2, getBlockPtr = [Number 7, Number 8]\<rparr>],
      csv_loaded = [''train.csv'']\<rparr>"

definition env_unbounded :: env where
  "env_unbounded =
     \<lparr>can_allocate = (\<lambda>c r. True), can_open_file = (\<lambda>p. False),
      csv_source = (\<lambda>p cols. (False, 0, []))\<rparr>"

definition five_rows :: NumericTable where
  "five_rows =
     \<lparr>table_type = SyclHomogenNumericTableDouble, getNumberOfColumns = 1, getNumberOfRows = 5,
      getBlockPtr = [Number 10, Number 20, Number 30, Number 40, Number 50]\<rparr>"

definition seven_rows_x :: NumericTable where
  "seven_rows_x =
     \<lparr>table_type = SyclHomogenNumericTableFloat, getNumberOfColumns = 2, getNumberOfRows = 7,
      getBlockPtr =
        [Number 10, Number 11, Number 20, Number 21, Number 30, Number 31, Number 40,
         Number 41, Number 50, Number 51, Number 60, Number 61, Number 70, Number 71]\<rparr>"

definition seven_rows_y :: NumericTable where
  "seven_rows_y =
     \<lparr>table_type = SyclHomogenNumericTableFloat, getNumberOfColumns = 1, getNumberOfRows = 7,
      getBlockPtr =
        [Number 1, Number 0, Number 1, Number 0, Number 1, Number 0, Number 1]\<rparr>"

definition seven_rows_heap :: heap where
  "seven_rows_heap = \<lparr>tables = [seven_rows_x, seven_rows_y], csv_loaded = []\<rparr>"

text \<open>
  Two tables of the double-precision backend that hold \<open>2 ^ 24 + 1\<close>, a value that single
  precision does not represent.
\<close>

definition double_column :: NumericTable where
  "double_column =
     \<lparr>table_type = SyclHomogenNumericTableDouble, getNumberOfColumns = 1, getNumberOfRows = 2,
      getBlockPtr = [Number 16777217, Number 3]\<rparr>"


section \<open>The block size is the exact ceiling for tables of fewer than \<open>2 ^ 24\<close> rows\<close>

lemma rhe_of_int: "round_half_even (of_int m) = m"
  by (simp add: round_half_even_def)

lemma rhe_le: "y \<le> of_int m \<Longrightarrow> round_half_even y \<le> m"
proof -
  assume a: "y \<le> of_int m"
  have f: "\<lfloor>y\<rfloor> \<le> m" using a by (simp add: floor_le_iff)
  show ?thesis
  proof (cases "\<lfloor>y\<rfloor> = m")
    case True
    then have "of_int m \<le> y" by (metis of_int_floor_le)
    with a have "y = of_int m" by simp
    then show ?thesis by (simp add: rhe_of_int)
  next
    case False
    with f have "\<lfloor>y\<rfloor> + 1 \<le> m" by simp
    then show ?thesis by (auto simp: round_half_even_def Let_def)
  qed
qed

lemma rhe_gt: "of_int m + 1 / 2 < y \<Longrightarrow> m < round_half_even y"
proof -
  assume a: "of_int m + 1 / 2 < y"
  then have "of_int m \<le> y" by simp
  then have f: "m \<le> \<lfloor>y\<rfloor>" by (simp add: le_floor_iff)
  show ?thesis
  proof (cases "\<lfloor>y\<rfloor> = m")
    case True
    with a have "1 / 2 < y - of_int \<lfloor>y\<rfloor>" by simp
    then show ?thesis using True by (simp add: round_half_even_def Let_def)
  next
    case False
    with f have "m < \<lfloor>y\<rfloor>" by simp
    then show ?thesis by (auto simp: round_half_even_def Let_def)
  qed
qed

lemma float_exponent_bounds:
  assumes "0 < x"
  shows "2 powi (float_exponent x) \<le> x" and "x < 2 powi (float_exponent x + 1)"
proof -
  obtain p q where pq: "quotient_of x = (p, q)" by (cases "quotient_of x")
  have q: "0 < q" using pq quotient_of_denom_pos by blast
  have x: "x = of_int p / of_int q" using pq quotient_of_div by blast
  have p: "0 < p" using assms q x by (simp add: zero_less_divide_iff)
  define lp lq where "lp = bitlen p" and "lq = bitlen q"
  have lp1: "1 \<le> lp" and lq1: "1 \<le> lq"
    using p q bitlen_eq_zero_iff [of p] bitlen_eq_zero_iff [of q] bitlen_nonneg [of p] bitlen_nonneg [of q]
    unfolding lp_def lq_def by linarith+
  have bp: "2 ^ nat (lp - 1) \<le> p" "p < 2 ^ nat lp"
    using bitlen_bounds [OF p] by (simp_all add: lp_def)
  have bq: "2 ^ nat (lq - 1) \<le> q" "q < 2 ^ nat lq"
    using bitlen_bounds [OF q] by (simp_all add: lq_def)
  have rp: "(2::rat) powi (lp - 1) \<le> of_int p" "of_int p < (2::rat) powi lp"
  proof -
    have "(of_int (2 ^ nat (lp - 1)) :: rat) \<le> of_int p" using bp(1) by (simp only: of_int_le_iff)
    then show "(2::rat) powi (lp - 1) \<le> of_int p" using lp1 by (simp add: power_int_def)
    have "(of_int p :: rat) < of_int (2 ^ nat lp)" using bp(2) by (simp only: of_int_less_iff)
    then show "of_int p < (2::rat) powi lp" using lp1 by (simp add: power_int_def)
  qed
  have rq: "(2::rat) powi (lq - 1) \<le> of_int q" "of_int q < (2::rat) powi lq"
  proof -
    have "(of_int (2 ^ nat (lq - 1)) :: rat) \<le> of_int q" using bq(1) by (simp only: of_int_le_iff)
    then show "(2::rat) powi (lq - 1) \<le> of_int q" using lq1 by (simp add: power_int_def)
    have "(of_int q :: rat) < of_int (2 ^ nat lq)" using bq(2) by (simp only: of_int_less_iff)
    then show "of_int q < (2::rat) powi lq" using lq1 by (simp add: power_int_def)
  qed
  have qpos: "(0::rat) < of_int q" using q by simp
  have up: "x < 2 powi (lp - lq + 1)"
  proof -
    have "x * 2 powi (lq - 1) \<le> x * of_int q"
      using rq(1) assms by (simp add: mult_left_mono)
    also have "\<dots> = of_int p" using x qpos by simp
    also have "\<dots> < 2 powi lp" by (rule rp(2))
    finally have "x * 2 powi (lq - 1) < 2 powi lp" .
    then have "x < 2 powi lp / 2 powi (lq - 1)"
      by (simp add: pos_less_divide_eq)
    also have "\<dots> = 2 powi (lp - lq + 1)"
      by (simp add: power_int_diff [symmetric] algebra_simps)
    finally show ?thesis .
  qed
  have lo: "2 powi (lp - lq - 1) \<le> x"
  proof -
    have "2 powi (lp - lq - 1) * of_int q \<le> (2::rat) powi (lp - lq - 1) * 2 powi lq"
      using rq(2) by (simp add: mult_left_mono)
    also have "\<dots> = 2 powi (lp - 1)"
      by (simp add: power_int_add [symmetric] algebra_simps)
    also have "\<dots> \<le> of_int p" by (rule rp(1))
    also have "\<dots> = x * of_int q" using x qpos by simp
    finally show ?thesis using qpos by simp
  qed
  have fe: "float_exponent x = (if 2 powi (lp - lq) \<le> x then lp - lq else lp - lq - 1)"
    by (simp add: float_exponent_def pq lp_def lq_def Let_def)
  show "2 powi (float_exponent x) \<le> x" using lo by (simp add: fe)
  show "x < 2 powi (float_exponent x + 1)" using up by (auto simp: fe not_le)
qed

lemma to_float_of_nat:
  assumes "n < 2 ^ 24"
  shows "to_float (of_nat n) = of_nat n"
proof (cases "n = 0")
  case True
  then show ?thesis by (simp add: to_float_def)
next
  case False
  define x :: rat where "x = of_nat n"
  define e where "e = float_exponent x"
  have xpos: "0 < x" using False by (simp add: x_def)
  have lo: "2 powi e \<le> x" using float_exponent_bounds(1) [OF xpos] by (simp add: e_def)
  have "x < 2 ^ 24" using assms unfolding x_def
    by (metis of_nat_less_iff of_nat_numeral of_nat_power)
  with lo have "(2::rat) powi e < 2 powi 24" by simp
  then have e: "e < 24" by (rule power_int_le_imp_less_exp [rotated]) simp_all
  define k where "k = nat (23 - e)"
  define s :: rat where "s = 1 / 2 ^ k"
  have s: "(2::rat) powi (e - 23) = s"
    using e unfolding k_def s_def by (simp add: power_int_def field_simps)
  have fl: "to_float x = of_int (round_half_even (x / s)) * s"
    using xpos by (simp add: to_float_def e_def [symmetric] s Let_def)
  have "x / s = of_int (int n * 2 ^ k)" by (simp add: x_def s_def)
  then have "round_half_even (x / s) = int n * 2 ^ k"
    by (simp only: rhe_of_int)
  then have "to_float x = x" by (simp add: fl) (simp add: s_def x_def)
  then show ?thesis by (simp add: x_def)
qed

lemma ceil_to_float_div:
  fixes a b :: nat
  assumes b: "0 < b" and a: "a < 2 ^ 24"
  shows "\<lceil>to_float (of_nat a / of_nat b)\<rceil> = \<lceil>(of_nat a / of_nat b :: rat)\<rceil>"
proof (cases "a = 0")
  case True
  then show ?thesis by (simp add: to_float_def)
next
  case False
  define x :: rat where "x = of_nat a / of_nat b"
  define e where "e = float_exponent x"
  define k where "k = \<lceil>x\<rceil>"
  have xpos: "0 < x" using False b by (simp add: x_def)
  have xb: "x * of_nat b = of_nat a" using b by (simp add: x_def)
  have lo: "2 powi e \<le> x" using float_exponent_bounds(1) [OF xpos] by (simp add: e_def)
  have a': "(of_nat a :: rat) < 2 ^ 24" using a
    by (metis of_nat_less_iff of_nat_numeral of_nat_power)
  have b1: "(1::rat) \<le> of_nat b" using b by simp
  have "x \<le> x * of_nat b" using xpos b1 by (simp add: mult_le_cancel_left1)
  with xb a' have "x < 2 ^ 24" by simp
  with lo have "(2::rat) powi e < 2 powi 24" by simp
  then have e: "e < 24" by (rule power_int_le_imp_less_exp [rotated]) simp_all
  define j where "j = nat (23 - e)"
  define s :: rat where "s = 1 / 2 ^ j"
  have s: "(2::rat) powi (e - 23) = s"
    using e unfolding j_def s_def by (simp add: power_int_def field_simps)
  have spos: "0 < s" by (simp add: s_def)
  have fl: "to_float x = of_int (round_half_even (x / s)) * s"
    using xpos by (simp add: to_float_def e_def [symmetric] s Let_def)
  have k1: "of_int k - 1 < x" and k2: "x \<le> of_int k"
    unfolding k_def by linarith+
  \<comment> \<open>upper bound\<close>
  have "x / s \<le> of_int k / s" using k2 spos by (simp add: divide_right_mono)
  also have "of_int k / s = of_int (k * 2 ^ j)" by (simp add: s_def)
  finally have "round_half_even (x / s) \<le> k * 2 ^ j" by (rule rhe_le)
  then have "(of_int (round_half_even (x / s)) :: rat) \<le> of_int (k * 2 ^ j)"
    by (simp only: of_int_le_iff)
  then have "of_int (round_half_even (x / s)) * s \<le> of_int (k * 2 ^ j) * s"
    using spos by (simp only: mult_le_cancel_right_pos)
  also have "of_int (k * 2 ^ j) * s = of_int k" by (simp add: s_def)
  finally have up: "to_float x \<le> of_int k" by (simp only: fl)
  \<comment> \<open>lower bound: the distance of x from k - 1 is at least 1 / b, more than half a unit\<close>
  have "(of_int (int a - (k - 1) * int b) :: rat) = (x - (of_int k - 1)) * of_nat b"
    using xb by (simp add: algebra_simps)
  also have "\<dots> > 0" using k1 b by simp
  finally have "0 < int a - (k - 1) * int b" by (simp only: of_int_0_less_iff)
  then have "1 \<le> int a - (k - 1) * int b" by simp
  then have "(1::rat) \<le> of_int (int a - (k - 1) * int b)" by (simp only: of_int_1_le_iff)
  also have "\<dots> = (x - (of_int k - 1)) * of_nat b"
    using xb by (simp add: algebra_simps)
  finally have d: "1 \<le> (x - (of_int k - 1)) * of_nat b" .
  have "of_nat b * 2 powi e \<le> of_nat b * x" using lo by (simp add: mult_left_mono)
  also have "\<dots> < 2 ^ 24" using xb a' by (simp add: mult.commute)
  finally have "of_nat b * (2::rat) powi e < 2 ^ 24" .
  moreover have "(2::rat) powi e = s * 2 ^ 23"
    using s [symmetric] by (simp add: power_int_diff)
  ultimately have bs: "of_nat b * s < 2" by (simp add: ac_simps)
  have bpos: "(0::rat) < of_nat b" using b by simp
  have "s / 2 * of_nat b < 1" using bs by (simp add: mult.commute)
  also note d
  finally have "s / 2 < x - (of_int k - 1)" using bpos by (simp only: mult_less_cancel_right_pos)
  then have "(of_int k - 1) + s / 2 < x" by linarith
  then have "((of_int k - 1) + s / 2) / s < x / s"
    using spos by (simp only: divide_strict_right_mono)
  moreover have "((of_int k - 1) + s / 2) / s = (of_int k - 1) / s + 1 / 2"
    using spos by (simp add: add_divide_distrib)
  ultimately have "(of_int k - 1) / s + 1 / 2 < x / s" by simp
  moreover have "(of_int k - 1) / s = of_int ((k - 1) * 2 ^ j)" by (simp add: s_def)
  ultimately have "of_int ((k - 1) * 2 ^ j) + 1 / 2 < x / s" by simp
  then have "(k - 1) * 2 ^ j < round_half_even (x / s)" by (rule rhe_gt)
  then have "(of_int ((k - 1) * 2 ^ j) :: rat) < of_int (round_half_even (x / s))"
    by (simp only: of_int_less_iff)
  then have "of_int ((k - 1) * 2 ^ j) * s < of_int (round_half_even (x / s)) * s"
    using spos by (simp only: mult_less_cancel_right_pos)
  moreover have "of_int ((k - 1) * 2 ^ j) * s = of_int k - 1" by (simp add: s_def)
  ultimately have low: "of_int k - 1 < to_float x" by (simp only: fl)
  have "\<lceil>to_float x\<rceil> = k" using low up by (rule ceiling_unique)
  then show ?thesis by (simp add: x_def k_def)
qed

lemma ceiling_nat_div:
  fixes a b :: nat
  assumes b: "0 < b"
  shows "nat \<lceil>(of_nat a / of_nat b :: rat)\<rceil> = (a + b - 1) div b"
proof -
  define q where "q = (a + b - 1) div b"
  define r where "r = (a + b - 1) mod b"
  have r: "r < b" using b by (simp add: r_def)
  have eq: "a + b - 1 = q * b + r" by (simp add: q_def r_def)
  have le: "a \<le> q * b" using eq r by linarith
  have lt: "q * b < a + b" using eq b by linarith
  have bpos: "(0::rat) < of_nat b" using b by simp
  have "(of_nat a :: rat) \<le> of_nat (q * b)" using le by (simp only: of_nat_le_iff)
  then have u: "(of_nat a / of_nat b :: rat) \<le> of_int (int q)"
    using bpos by (simp add: pos_divide_le_eq)
  have "(of_nat (q * b) :: rat) < of_nat (a + b)" using lt by (simp only: of_nat_less_iff)
  then have "(of_nat q :: rat) * of_nat b < of_nat a + of_nat b" by simp
  then have "(of_nat q :: rat) < (of_nat a + of_nat b) / of_nat b"
    using bpos by (simp only: pos_less_divide_eq)
  also have "\<dots> = of_nat a / of_nat b + 1"
    using bpos by (simp add: add_divide_distrib)
  finally have l: "of_int (int q) - 1 < (of_nat a / of_nat b :: rat)" by simp
  have "\<lceil>(of_nat a / of_nat b :: rat)\<rceil> = int q" using l u by (rule ceiling_unique)
  then show ?thesis by (simp add: q_def)
qed

lemma block_size_of_exact:
  assumes "0 < num_blocks" "num_blocks < 2 ^ 24" "num_rows < 2 ^ 24"
  shows "block_size_of num_rows num_blocks = (num_rows + num_blocks - 1) div num_blocks"
  using assms by (simp add: block_size_of_def to_float_of_nat ceil_to_float_div ceiling_nat_div)

lemma float_exponent_unique:
  assumes "0 < x" and "2 powi k \<le> x" and "x < 2 powi (k + 1)"
  shows "float_exponent x = k"
proof -
  have a: "(2::rat) powi float_exponent x < 2 powi (k + 1)"
    using float_exponent_bounds(1) [OF assms(1)] assms(3) by (rule le_less_trans)
  have "float_exponent x < k + 1"
  proof (rule ccontr)
    assume "\<not> float_exponent x < k + 1"
    then have "k + 1 \<le> float_exponent x" by simp
    then have "(2::rat) powi (k + 1) \<le> 2 powi float_exponent x"
      by (rule power_int_increasing) simp
    with a show False by simp
  qed
  moreover have b: "(2::rat) powi k < 2 powi (float_exponent x + 1)"
    using assms(2) float_exponent_bounds(2) [OF assms(1)] by (rule le_less_trans)
  have "k < float_exponent x + 1"
  proof (rule ccontr)
    assume "\<not> k < float_exponent x + 1"
    then have "float_exponent x + 1 \<le> k" by simp
    then have "(2::rat) powi (float_exponent x + 1) \<le> 2 powi k"
      by (rule power_int_increasing) simp
    with b show False by simp
  qed
  ultimately show ?thesis by simp
qed

lemma to_float_16777216: "to_float 16777216 = 16777216"
proof -
  have e: "float_exponent (16777216 :: rat) = 24"
    by (rule float_exponent_unique) simp_all
  have r: "round_half_even 8388608 = 8388608"
    using rhe_of_int [of 8388608] by simp
  show ?thesis by (simp add: to_float_def e r)
qed

lemma block_size_of_exact_le:
  assumes nb: "0 < num_blocks" "num_blocks \<le> 2 ^ 24" and R: "num_rows < 2 ^ 24"
  shows "block_size_of num_rows num_blocks = (num_rows + num_blocks - 1) div num_blocks"
proof (cases "num_blocks < 2 ^ 24")
  case True
  with nb(1) show ?thesis using R by (rule block_size_of_exact)
next
  case False
  with nb(2) have n: "num_blocks = 16777216" by simp
  have "block_size_of num_rows num_blocks
          = nat \<lceil>to_float (of_nat num_rows / of_nat num_blocks)\<rceil>"
    using R by (simp add: block_size_of_def to_float_of_nat n to_float_16777216)
  then show ?thesis using nb(1) R by (simp add: ceil_to_float_div ceiling_nat_div)
qed

lemma block_size_of_no_rows: "block_size_of 0 num_blocks = 0"
  by (simp add: block_size_of_def to_float_def)

lemma block_size_of_5_4: "block_size_of 5 4 = 2"
  by (simp add: block_size_of_exact)

text \<open>
  Beyond \<open>2 ^ 24\<close> the conversion to \<open>float\<close> rounds: \<open>float(16777217)\<close> is \<open>16777216\<close>, and the
  block size computed for two blocks is one short of the ceiling.
\<close>

lemma to_float_16777217: "to_float 16777217 = 16777216"
proof -
  have e: "float_exponent (16777217 :: rat) = 24"
    by (rule float_exponent_unique) simp_all
  have f: "\<lfloor>(16777217 :: rat) / 2\<rfloor> = 8388608"
    by (rule floor_unique) simp_all
  have r: "round_half_even (16777217 / 2) = 8388608"
    by (simp add: round_half_even_def Let_def f)
  show ?thesis by (simp add: to_float_def e r)
qed

lemma block_size_of_16777217:
  "block_size_of 16777217 2 = 8388608"
proof -
  have "to_float (of_nat 2) = of_nat 2" by (rule to_float_of_nat) simp
  then have 2: "to_float 2 = 2" by simp
  have "to_float (of_nat 8388608) = of_nat 8388608" by (rule to_float_of_nat) simp
  then have 3: "to_float 8388608 = 8388608" by simp
  show ?thesis by (simp add: block_size_of_def to_float_16777217 2 3)
qed

section \<open>Conversion of elements to single precision\<close>

lemma float_exponent_ge:
  assumes "0 < x" and "2 powi k \<le> x"
  shows "k \<le> float_exponent x"
proof (rule ccontr)
  assume "\<not> k \<le> float_exponent x"
  then have "float_exponent x + 1 \<le> k" by simp
  then have "(2::rat) powi (float_exponent x + 1) \<le> 2 powi k"
    by (rule power_int_increasing) simp
  with assms(2) have "2 powi (float_exponent x + 1) \<le> x" by simp
  with float_exponent_bounds(2) [OF assms(1)] show False by simp
qed

text \<open>
  In the normal range of \<open>float\<close> the conversion is the rounding to 24 significant bits.
\<close>

lemma double_to_float_normal:
  assumes lo: "2 powi (- 126) \<le> \<bar>v\<bar>" and hi: "\<bar>to_float v\<bar> < 2 ^ 128"
  shows "double_to_float v = Number (to_float v)"
proof -
  have pos: "0 < \<bar>v\<bar>"
  proof -
    have "(0::rat) < 2 powi (- 126)" by simp
    then show ?thesis using lo by (rule less_le_trans)
  qed
  then have v: "v \<noteq> 0" by simp
  have "- 126 \<le> float_exponent \<bar>v\<bar>" using pos lo by (rule float_exponent_ge)
  then have m: "max (float_exponent \<bar>v\<bar> - 23) (- 149) = float_exponent \<bar>v\<bar> - 23" by simp
  have r: "of_int (round_half_even (v / 2 powi (float_exponent \<bar>v\<bar> - 23)))
             * 2 powi (float_exponent \<bar>v\<bar> - 23) = to_float v"
    using v by (simp add: to_float_def Let_def)
  have h1: "\<not> 2 ^ 128 \<le> to_float v" and h2: "\<not> to_float v \<le> - (2 ^ 128)"
    using hi by (simp_all add: abs_less_iff not_le)
  show ?thesis
    using v h1 h2 by (simp only: double_to_float_def m Let_def r if_False)
qed

lemma double_to_float_of_nat:
  assumes "n < 2 ^ 24"
  shows "double_to_float (of_nat n) = Number (of_nat n)"
proof (cases "n = 0")
  case True
  then show ?thesis by (simp add: double_to_float_def)
next
  case False
  have t: "to_float (of_nat n) = of_nat n" using assms by (rule to_float_of_nat)
  have "(2::rat) powi (- 126) \<le> 2 powi 0" by (rule power_int_increasing) simp_all
  also have "\<dots> \<le> of_nat n" using False by simp
  finally have lo: "2 powi (- 126) \<le> \<bar>of_nat n :: rat\<bar>" by simp
  have "(of_nat n :: rat) < 2 ^ 24" using assms
    by (metis of_nat_less_iff of_nat_numeral of_nat_power)
  also have "\<dots> < 2 ^ 128" by simp
  finally have hi: "\<bar>to_float (of_nat n)\<bar> < 2 ^ 128" by (simp add: t)
  show ?thesis using double_to_float_normal [OF lo hi] by (simp add: t)
qed

lemma double_to_float_16777217: "double_to_float 16777217 = Number 16777216"
proof -
  have "(2::rat) powi (- 126) \<le> 2 powi 0" by (rule power_int_increasing) simp_all
  then have lo: "2 powi (- 126) \<le> \<bar>16777217 :: rat\<bar>" by simp
  have hi: "\<bar>to_float 16777217\<bar> < 2 ^ 128" by (simp add: to_float_16777217)
  show ?thesis using double_to_float_normal [OF lo hi] by (simp add: to_float_16777217)
qed

lemma store_element_double [simp]: "store_element SyclHomogenNumericTableDouble x = x"
  by (cases x) simp_all

lemma map_store_element_double [simp]:
  "map (store_element SyclHomogenNumericTableDouble) xs = xs"
  by (rule map_idI) simp

section \<open>Copying a block\<close>

lemma size_sub_le:
  assumes "b \<le> a" and "a < 2 ^ 64"
  shows "size_sub a b = a - b"
proof -
  define M :: nat where "M = 2 ^ 64"
  have "b < M" using assms by (simp add: M_def)
  then have b: "b mod M = b" by (rule mod_less)
  have e: "a + M - b = (a - b) + M" using assms(1) by (rule Nat.diff_add_assoc2)
  have lt: "a - b < M" using assms(2) unfolding M_def by (rule less_imp_diff_less)
  have "(a + M - b mod M) mod M = ((a - b) + M) mod M" by (simp only: b e)
  also have "\<dots> = (a - b) mod M" by (simp only: mod_add_self2)
  also have "\<dots> = a - b" using lt by (rule mod_less)
  finally show ?thesis by (simp only: size_sub_def M_def)
qed

lemma size_mul_less: "a * b < 2 ^ 64 \<Longrightarrow> size_mul a b = a * b"
  by (simp add: size_mul_def)

lemma size_add_less: "a + b < 2 ^ 64 \<Longrightarrow> size_add a b = a + b"
  by (simp add: size_add_def)

lemma copy_block_in_range:
  assumes p: "deref h p = Some nt" and wf: "well_formed nt"
    and start: "i * b \<le> getNumberOfRows nt" and nowrap: "i * b + b < 2 ^ 64"
    and ty: "t \<noteq> OtherNumericTableType"
    and alloc: "can_allocate e (getNumberOfColumns nt)
                  (min (i * b + b) (getNumberOfRows nt) - i * b)"
  shows "copy_block e p t i b h =
           (Ok (Some (length (tables h))),
            h\<lparr>tables := tables h @
               [block_table t nt (i * b) (min (i * b + b) (getNumberOfRows nt) - i * b)]\<rparr>)"
proof -
  define c where "c = getNumberOfColumns nt"
  define R where "R = getNumberOfRows nt"
  define n where "n = min (i * b + b) R - i * b"
  have len: "length (getBlockPtr nt) = R * c" and Rc: "R * c < 2 ^ 64" and R: "R < 2 ^ 64"
    using wf by (simp_all add: well_formed_def c_def R_def)
  have s1: "size_mul i b = i * b" using nowrap by (simp add: size_mul_less)
  have s2: "size_add (i * b) b = i * b + b" using nowrap by (simp add: size_add_less)
  have e: "(if i * b + b > R then R else i * b + b) = min (i * b + b) R" by (simp add: min_def)
  have s3: "size_sub (min (i * b + b) R) (i * b) = n"
    using start R unfolding n_def R_def [symmetric] by (intro size_sub_le) (simp_all add: min_def)
  have nR: "i * b + n \<le> R" using start unfolding n_def R_def [symmetric] by (simp add: min_def)
  have "n \<le> R" using nR by simp
  then have "c * n \<le> R * c" by (simp only: mult.commute [of c n] mult_le_mono1)
  then have "c * n < 2 ^ 64" using Rc by (rule le_less_trans)
  then have s4: "size_mul c n = c * n" by (rule size_mul_less)
  have "i * b \<le> R" using start by (simp add: R_def)
  then have "i * b * c \<le> R * c" by (simp only: mult_le_mono1)
  then have "i * b * c < 2 ^ 64" using Rc by (rule le_less_trans)
  then have s5: "size_mul (i * b) c = i * b * c" by (rule size_mul_less)
  have "(i * b + n) * c \<le> R * c" using nR by (simp only: mult_le_mono1)
  then have fit: "i * b * c + c * n \<le> R * c" by (simp add: algebra_simps)
  have cr: "create_numeric_table e t c n doAllocate h =
              (Ok (Some (length (tables h))),
               h\<lparr>tables := tables h @
                  [\<lparr>table_type = t, getNumberOfColumns = c, getNumberOfRows = n,
                    getBlockPtr = replicate (c * n) (Number 0)\<rparr>]\<rparr>)"
    using ty alloc by (simp add: create_numeric_table_def c_def R_def n_def)
  have "copy_block e p t i b h =
          (Ok (Some (length (tables h))),
           h\<lparr>tables := tables h @
              [\<lparr>table_type = t, getNumberOfColumns = c, getNumberOfRows = n,
                getBlockPtr = map (store_element t)
                                (take (c * n) (drop (i * b * c) (getBlockPtr nt)))\<rparr>]\<rparr>)"
    unfolding copy_block_def
    apply (simp only: p option.case Let_def c_def [symmetric] R_def [symmetric] s1 s2 e s3 s4 s5 cr)
    apply (simp add: len fit releaseBlockOfRows_def)
    done
  then show ?thesis by (simp add: block_table_def c_def R_def n_def)
qed

lemma block_table_nth:
  assumes fit: "(s + n) * getNumberOfColumns nt \<le> length (getBlockPtr nt)"
    and row: "row < n" and col: "col < getNumberOfColumns nt"
  shows "getBlockPtr (block_table t nt s n) ! (row * getNumberOfColumns nt + col)
           = store_element t (getBlockPtr nt ! ((s + row) * getNumberOfColumns nt + col))"
proof -
  define c where "c = getNumberOfColumns nt"
  have "row * c + col < row * c + c" using col by (simp add: c_def)
  also have "\<dots> = (row + 1) * c" by simp
  also have "\<dots> \<le> n * c" using row by (simp only: mult_le_mono1 Suc_leI Suc_eq_plus1 [symmetric])
  finally have idx: "row * c + col < c * n" by (simp add: mult.commute)
  have "s * c \<le> (s + n) * c" by (simp only: mult_le_mono1 le_add1)
  then have off: "s * c \<le> length (getBlockPtr nt)"
    using fit unfolding c_def by (rule le_trans)
  have "c * n \<le> length (getBlockPtr nt) - s * c"
    using fit by (simp add: c_def algebra_simps)
  then have idx': "row * c + col < length (take (c * n) (drop (s * c) (getBlockPtr nt)))"
    using idx by simp
  have "getBlockPtr (block_table t nt s n) ! (row * c + col)
          = store_element t (take (c * n) (drop (s * c) (getBlockPtr nt)) ! (row * c + col))"
    unfolding block_table_def c_def [symmetric] using idx' by (simp only: NumericTable.simps nth_map)
  also have "take (c * n) (drop (s * c) (getBlockPtr nt)) ! (row * c + col)
               = drop (s * c) (getBlockPtr nt) ! (row * c + col)"
    using idx by simp
  also have "\<dots> = getBlockPtr nt ! (s * c + (row * c + col))"
    using off by (simp only: nth_drop)
  also have "s * c + (row * c + col) = (s + row) * c + col" by (simp add: algebra_simps)
  finally show ?thesis by (simp only: c_def)
qed

lemma copy_block_OkD:
  assumes "copy_block e p t i b h = (Ok q, h')" and "deref h p = Some nt"
  obtains n where
    "n = size_sub (if size_add (size_mul i b) b > getNumberOfRows nt then getNumberOfRows nt
                   else size_add (size_mul i b) b) (size_mul i b)"
    "size_mul (size_mul i b) (getNumberOfColumns nt) + size_mul (getNumberOfColumns nt) n
       \<le> length (getBlockPtr nt)"
    "size_mul (getNumberOfColumns nt) n \<le> getNumberOfColumns nt * n"
    "q = Some (length (tables h))"
    "t \<noteq> OtherNumericTableType"
    "can_allocate e (getNumberOfColumns nt) n"
    "h' = h\<lparr>tables := tables h @
            [\<lparr>table_type = t, getNumberOfColumns = getNumberOfColumns nt, getNumberOfRows = n,
              getBlockPtr = map (store_element t)
                (take (size_mul (getNumberOfColumns nt) n)
                   (drop (size_mul (size_mul i b) (getNumberOfColumns nt)) (getBlockPtr nt))
                 @ replicate (getNumberOfColumns nt * n - size_mul (getNumberOfColumns nt) n)
                     (Number 0))\<rparr>]\<rparr>"
  using assms
  unfolding copy_block_def create_numeric_table_def
  by (simp add: Let_def releaseBlockOfRows_def split: if_splits)

lemma size_add_wrap:
  assumes "2 ^ 64 \<le> a + b" and "a < 2 ^ 64" and "b < 2 ^ 64"
  shows "size_add a b = a + b - 2 ^ 64"
proof -
  define M :: nat where "M = 2 ^ 64"
  have "a + b - M < M" using assms(2,3) unfolding M_def by linarith
  then have "(a + b - M) mod M = a + b - M" by (rule mod_less)
  moreover have "(a + b) mod M = (a + b - M) mod M"
    using assms(1) unfolding M_def by (rule le_mod_geq)
  ultimately show ?thesis by (simp only: size_add_def M_def)
qed

lemma copy_block_no_wrap:
  assumes ok: "copy_block e p t i b h = (Ok q, h')" and p: "deref h p = Some nt"
    and wf: "well_formed nt" and b: "b < 2 ^ 64"
    and start: "i * b < getNumberOfRows nt" and col: "0 < getNumberOfColumns nt"
  shows "i * b + b < 2 ^ 64"
proof (rule ccontr)
  define c where "c = getNumberOfColumns nt"
  define R where "R = getNumberOfRows nt"
  define M :: nat where "M = 2 ^ 64"
  assume "\<not> i * b + b < 2 ^ 64"
  then have wrap: "M \<le> i * b + b" by (simp add: M_def)
  have len: "length (getBlockPtr nt) = R * c" and Rc: "R * c < M" and R: "R < M"
    using wf by (simp_all add: well_formed_def c_def R_def M_def)
  have st: "i * b < R" using start by (simp add: R_def)
  have bM: "b < M" using b by (simp add: M_def)
  have ibM: "i * b < M" using st R by (rule less_trans)
  have s1: "size_mul i b = i * b" using ibM unfolding M_def by (rule size_mul_less)
  have s2: "size_add (i * b) b = i * b + b - M"
    using wrap ibM bM unfolding M_def by (rule size_add_wrap)
  have e0: "i * b + b - M < i * b" using bM wrap by linarith
  have nR: "\<not> R < i * b + b - M" using e0 st by linarith
  have "i * b mod M = i * b" using ibM by (rule mod_less)
  moreover have "i * b + b - M + M - i * b = b" using wrap by linarith
  moreover have "b mod M = b" using bM by (rule mod_less)
  ultimately have s3: "size_sub (i * b + b - M) (i * b) = b"
    by (simp only: size_sub_def M_def [symmetric])
  from copy_block_OkD [OF ok p] obtain n where
    n: "n = size_sub (if size_add (size_mul i b) b > getNumberOfRows nt then getNumberOfRows nt
                   else size_add (size_mul i b) b) (size_mul i b)"
    and fit: "size_mul (size_mul i b) (getNumberOfColumns nt) + size_mul (getNumberOfColumns nt) n
       \<le> length (getBlockPtr nt)"
    by blast
  have nb: "n = b"
    unfolding n by (simp only: s1 s2 R_def [symmetric] nR if_False s3)
  have "0 < i" using wrap bM by (cases i) auto
  then have "b \<le> i * b" by simp
  then have "R + R > M" using wrap st by linarith
  have c1: "c = 1"
  proof (rule ccontr)
    assume "c \<noteq> 1"
    with col have "2 \<le> c" by (simp add: c_def)
    then have "R * 2 \<le> R * c" by (simp only: mult_le_mono2)
    with Rc \<open>R + R > M\<close> show False by linarith
  qed
  have "size_mul (i * b) 1 = i * b" using ibM by (simp add: size_mul_def M_def)
  moreover have "size_mul 1 b = b" using bM by (simp add: size_mul_def M_def)
  ultimately have "i * b + b \<le> R"
    using fit unfolding s1 nb c_def [symmetric] c1 len by simp
  with wrap R show False by linarith
qed

lemma copy_block_Ok_content:
  assumes ok: "copy_block e p t i b h = (Ok q, h')" and p: "deref h p = Some nt"
    and wf: "well_formed nt" and b: "b < 2 ^ 64"
  shows "\<exists>tb. deref h' q = Some tb
           \<and> getNumberOfColumns tb = getNumberOfColumns nt \<and> table_type tb = t
           \<and> (\<forall>row col. row < getNumberOfRows tb \<and> i * b + row < getNumberOfRows nt
                  \<and> col < getNumberOfColumns nt \<longrightarrow>
                getBlockPtr tb ! (row * getNumberOfColumns nt + col)
                  = store_element t
                      (getBlockPtr nt ! ((i * b + row) * getNumberOfColumns nt + col)))"
proof -
  define c where "c = getNumberOfColumns nt"
  define R where "R = getNumberOfRows nt"
  from copy_block_OkD [OF ok p] obtain n blk where
    n: "n = size_sub (if size_add (size_mul i b) b > R then R
                      else size_add (size_mul i b) b) (size_mul i b)"
    and q: "q = Some (length (tables h))"
    and ty: "t \<noteq> OtherNumericTableType"
    and alloc: "can_allocate e c n"
    and h': "h' = h\<lparr>tables := tables h @
               [\<lparr>table_type = t, getNumberOfColumns = c, getNumberOfRows = n,
                 getBlockPtr = blk\<rparr>]\<rparr>"
    unfolding c_def R_def by blast
  define tb where "tb = \<lparr>table_type = t, getNumberOfColumns = c, getNumberOfRows = n,
                 getBlockPtr = blk\<rparr>"
  have d: "deref h' q = Some tb" by (simp add: deref_def q h' tb_def)
  have cols: "getNumberOfColumns tb = c" and tt: "table_type tb = t" by (simp_all add: tb_def)
  have rows: "getNumberOfRows tb = n" by (simp add: tb_def)
  have "getBlockPtr tb ! (row * c + col)
          = store_element t (getBlockPtr nt ! ((i * b + row) * c + col))"
    if row: "row < n" and src: "i * b + row < R" and col: "col < c" for row col
  proof -
    have len: "length (getBlockPtr nt) = R * c" and R: "R < 2 ^ 64"
      using wf by (simp_all add: well_formed_def c_def R_def)
    have st: "i * b < R" using src by simp
    have cpos: "0 < c" using col by simp
    have nw: "i * b + b < 2 ^ 64"
      using ok p wf b st cpos unfolding R_def c_def by (rule copy_block_no_wrap)
    have s1: "size_mul i b = i * b" using nw by (simp add: size_mul_less)
    have s2: "size_add (i * b) b = i * b + b" using nw by (simp add: size_add_less)
    have "i * b \<le> (if i * b + b > R then R else i * b + b)" using st by simp
    moreover have "(if i * b + b > R then R else i * b + b) < 2 ^ 64" using R nw by simp
    ultimately have "size_sub (if i * b + b > R then R else i * b + b) (i * b)
                       = (if i * b + b > R then R else i * b + b) - i * b"
      by (rule size_sub_le)
    then have n': "n = min (i * b + b) R - i * b"
      unfolding n s1 s2 by (simp add: min_def)
    have st': "i * b \<le> getNumberOfRows nt" using st by (simp add: R_def)
    have alloc': "can_allocate e (getNumberOfColumns nt)
                    (min (i * b + b) (getNumberOfRows nt) - i * b)"
      using alloc by (simp add: n' c_def R_def)
    have "copy_block e p t i b h =
            (Ok (Some (length (tables h))),
             h\<lparr>tables := tables h @ [block_table t nt (i * b) n]\<rparr>)"
      using copy_block_in_range [OF p wf st' nw ty alloc'] by (simp add: n' R_def)
    with ok have "h' = h\<lparr>tables := tables h @ [block_table t nt (i * b) n]\<rparr>" by simp
    then have "tables h' = tables h @ [block_table t nt (i * b) n]" by simp
    moreover have "tables h' = tables h @ [tb]" by (simp add: h' tb_def)
    ultimately have tb: "tb = block_table t nt (i * b) n" by simp
    have "i * b + n \<le> R" using st by (simp add: n' min_def)
    then have "(i * b + n) * c \<le> R * c" by (simp only: mult_le_mono1)
    then have fit: "(i * b + n) * getNumberOfColumns nt \<le> length (getBlockPtr nt)"
      by (simp only: len c_def)
    show ?thesis
      using block_table_nth [OF fit row, of col t] col unfolding tb c_def by simp
  qed
  then show ?thesis using d cols tt rows unfolding c_def R_def by blast
qed

lemma deref_append:
  "deref h p = Some v \<Longrightarrow> deref (h\<lparr>tables := tables h @ zs\<rparr>) p = Some v"
  by (auto simp: deref_def nth_append split: option.splits if_splits)

lemma deref_new:
  "deref (h\<lparr>tables := tables h @ [v]\<rparr>) (Some (length (tables h))) = Some v"
  by (simp add: deref_def)

lemma well_typed_nth:
  assumes "well_typed nt" and "k < length (getBlockPtr nt)"
  shows "store_element (table_type nt) (getBlockPtr nt ! k) = getBlockPtr nt ! k"
  using assms by (simp add: well_typed_def list_all_length)

text \<open>
  Claim C2, as amended. For a well-formed source table, every block index \<open>i\<close> and every
  block size \<open>b\<close>: \<open>copy_block\<close> returns a table whenever block \<open>i\<close> starts within the source
  (and the backend is implemented and the library allocates the block), and every table it
  returns is of the requested backend and holds, at each \<open>(row, col)\<close> within the copied
  range (offset \<open>row * num_columns + col\<close>), the source element at \<open>(i * b + row, col)\<close>
  converted to the element type of the requested backend. Reading the block back gives the
  source value itself when the requested backend is the double-precision one, and when the
  source is a table of the requested backend holding values of its element type. The
  function is the one \<open>set_block\<close> uses for feature and label tables alike.
\<close>

theorem copy_block_reads_back_stored:
  assumes "deref h p = Some nt" and "well_formed nt" and "b < 2 ^ 64"
  shows "(i * b \<le> getNumberOfRows nt \<and> i * b + b < 2 ^ 64 \<and> t \<noteq> OtherNumericTableType
            \<and> can_allocate e (getNumberOfColumns nt) (min (i * b + b) (getNumberOfRows nt) - i * b)
          \<longrightarrow> (\<exists>q h' tb. copy_block e p t i b h = (Ok q, h') \<and> deref h' q = Some tb
                 \<and> getNumberOfRows tb = min (i * b + b) (getNumberOfRows nt) - i * b))
         \<and> (\<forall>q h'. copy_block e p t i b h = (Ok q, h') \<longrightarrow>
               (\<exists>tb. deref h' q = Some tb
                  \<and> getNumberOfColumns tb = getNumberOfColumns nt \<and> table_type tb = t
                  \<and> (\<forall>row col. row < getNumberOfRows tb \<and> i * b + row < getNumberOfRows nt
                         \<and> col < getNumberOfColumns nt \<longrightarrow>
                       getBlockPtr tb ! (row * getNumberOfColumns nt + col)
                         = store_element t
                             (getBlockPtr nt ! ((i * b + row) * getNumberOfColumns nt + col))
                       \<and> (t = SyclHomogenNumericTableDouble \<or> (table_type nt = t \<and> well_typed nt)
                            \<longrightarrow> getBlockPtr tb ! (row * getNumberOfColumns nt + col)
                                  = getBlockPtr nt ! ((i * b + row) * getNumberOfColumns nt + col)))))"
proof (intro conjI impI allI)
  assume a: "i * b \<le> getNumberOfRows nt \<and> i * b + b < 2 ^ 64 \<and> t \<noteq> OtherNumericTableType
            \<and> can_allocate e (getNumberOfColumns nt) (min (i * b + b) (getNumberOfRows nt) - i * b)"
  then have "copy_block e p t i b h =
           (Ok (Some (length (tables h))),
            h\<lparr>tables := tables h @
               [block_table t nt (i * b) (min (i * b + b) (getNumberOfRows nt) - i * b)]\<rparr>)"
    using assms(1,2) by (intro copy_block_in_range) simp_all
  moreover have "deref (h\<lparr>tables := tables h @
               [block_table t nt (i * b) (min (i * b + b) (getNumberOfRows nt) - i * b)]\<rparr>)
                   (Some (length (tables h)))
                 = Some (block_table t nt (i * b) (min (i * b + b) (getNumberOfRows nt) - i * b))"
    by (rule deref_new)
  moreover have "getNumberOfRows (block_table t nt (i * b) (min (i * b + b) (getNumberOfRows nt) - i * b))
                   = min (i * b + b) (getNumberOfRows nt) - i * b"
    by (simp add: block_table_def)
  ultimately show "\<exists>q h' tb. copy_block e p t i b h = (Ok q, h') \<and> deref h' q = Some tb
                 \<and> getNumberOfRows tb = min (i * b + b) (getNumberOfRows nt) - i * b"
    by blast
next
  fix q h'
  assume ok: "copy_block e p t i b h = (Ok q, h')"
  from copy_block_Ok_content [OF ok assms] obtain tb where
    d: "deref h' q = Some tb" and c: "getNumberOfColumns tb = getNumberOfColumns nt"
    and tt: "table_type tb = t"
    and v: "\<And>row col. row < getNumberOfRows tb \<Longrightarrow> i * b + row < getNumberOfRows nt
               \<Longrightarrow> col < getNumberOfColumns nt \<Longrightarrow>
             getBlockPtr tb ! (row * getNumberOfColumns nt + col)
               = store_element t (getBlockPtr nt ! ((i * b + row) * getNumberOfColumns nt + col))"
    by blast
  have w: "getBlockPtr tb ! (row * getNumberOfColumns nt + col)
             = getBlockPtr nt ! ((i * b + row) * getNumberOfColumns nt + col)"
    if r: "row < getNumberOfRows tb" "i * b + row < getNumberOfRows nt"
      "col < getNumberOfColumns nt"
      and s: "t = SyclHomogenNumericTableDouble \<or> (table_type nt = t \<and> well_typed nt)"
    for row col
  proof -
    have len: "length (getBlockPtr nt) = getNumberOfRows nt * getNumberOfColumns nt"
      using assms(2) by (simp add: well_formed_def)
    have "(i * b + row) * getNumberOfColumns nt + col
            < (i * b + row) * getNumberOfColumns nt + getNumberOfColumns nt"
      using r(3) by simp
    also have "\<dots> = Suc (i * b + row) * getNumberOfColumns nt" by simp
    also have "\<dots> \<le> getNumberOfRows nt * getNumberOfColumns nt"
      using r(2) by (simp only: mult_le_mono1 Suc_leI)
    finally have k: "(i * b + row) * getNumberOfColumns nt + col < length (getBlockPtr nt)"
      by (simp only: len)
    have "store_element t (getBlockPtr nt ! ((i * b + row) * getNumberOfColumns nt + col))
            = getBlockPtr nt ! ((i * b + row) * getNumberOfColumns nt + col)"
      using s
    proof
      assume "t = SyclHomogenNumericTableDouble"
      then show ?thesis by simp
    next
      assume "table_type nt = t \<and> well_typed nt"
      then show ?thesis using well_typed_nth [OF _ k] by auto
    qed
    then show ?thesis using v [OF r] by simp
  qed
  show "\<exists>tb. deref h' q = Some tb
          \<and> getNumberOfColumns tb = getNumberOfColumns nt \<and> table_type tb = t
          \<and> (\<forall>row col. row < getNumberOfRows tb \<and> i * b + row < getNumberOfRows nt
                 \<and> col < getNumberOfColumns nt \<longrightarrow>
               getBlockPtr tb ! (row * getNumberOfColumns nt + col)
                 = store_element t
                     (getBlockPtr nt ! ((i * b + row) * getNumberOfColumns nt + col))
               \<and> (t = SyclHomogenNumericTableDouble \<or> (table_type nt = t \<and> well_typed nt)
                    \<longrightarrow> getBlockPtr tb ! (row * getNumberOfColumns nt + col)
                          = getBlockPtr nt ! ((i * b + row) * getNumberOfColumns nt + col)))"
    using d c tt v w by blast
qed

lemma seven_rows_facts:
  "deref seven_rows_heap (Some 0) = Some seven_rows_x"
  "deref seven_rows_heap (Some 1) = Some seven_rows_y"
  "well_formed seven_rows_x" "well_formed seven_rows_y"
  "getNumberOfRows seven_rows_x = 7" "getNumberOfRows seven_rows_y = 7"
  "getNumberOfColumns seven_rows_x = 2" "getNumberOfColumns seven_rows_y = 1"
  by (simp_all add: deref_def seven_rows_heap_def well_formed_def seven_rows_x_def seven_rows_y_def)

lemma double_to_float_numeral:
  "numeral k < (2 :: nat) ^ 24 \<Longrightarrow> double_to_float (numeral k) = Number (numeral k)"
  using double_to_float_of_nat [of "numeral k"] by simp

lemma double_to_float_0_1: "double_to_float 0 = Number 0" "double_to_float 1 = Number 1"
  using double_to_float_of_nat [of 0] double_to_float_of_nat [of 1] by simp_all

lemma seven_rows_typed:
  "table_type seven_rows_x = SyclHomogenNumericTableFloat" "well_typed seven_rows_x"
  "table_type seven_rows_y = SyclHomogenNumericTableFloat" "well_typed seven_rows_y"
  by (simp_all add: well_typed_def seven_rows_x_def seven_rows_y_def double_to_float_numeral
        double_to_float_0_1)

text \<open>
  Block 2 of size 3 of the seven-row feature table, a single-precision table copied into
  the single-precision backend: its single row is row 6, read back as it is.
\<close>

theorem copy_block_reads_back_stored_witness:
  "deref seven_rows_heap (Some 0) = Some seven_rows_x \<and> well_formed seven_rows_x
   \<and> table_type seven_rows_x = SyclHomogenNumericTableFloat \<and> well_typed seven_rows_x
   \<and> (\<exists>q h' tb. copy_block env_unbounded (Some 0) SyclHomogenNumericTableFloat 2 3 seven_rows_heap
                    = (Ok q, h')
         \<and> deref h' q = Some tb \<and> getNumberOfRows tb = 1 \<and> getNumberOfColumns tb = 2
         \<and> table_type tb = SyclHomogenNumericTableFloat
         \<and> getBlockPtr tb ! (0 * 2 + 0) = getBlockPtr seven_rows_x ! ((2 * 3 + 0) * 2 + 0)
         \<and> getBlockPtr tb ! (0 * 2 + 1) = getBlockPtr seven_rows_x ! ((2 * 3 + 0) * 2 + 1))"
proof -
  have b: "(3 :: nat) < 2 ^ 64" by simp
  note r = copy_block_reads_back_stored [OF seven_rows_facts(1) seven_rows_facts(3) b,
        of 2 SyclHomogenNumericTableFloat env_unbounded]
  have "2 * 3 \<le> getNumberOfRows seven_rows_x \<and> 2 * 3 + 3 < (2 :: nat) ^ 64
          \<and> SyclHomogenNumericTableFloat \<noteq> OtherNumericTableType
          \<and> can_allocate env_unbounded (getNumberOfColumns seven_rows_x)
                (min (2 * 3 + 3) (getNumberOfRows seven_rows_x) - 2 * 3)"
    by (simp add: seven_rows_facts env_unbounded_def)
  with r obtain q h' tb where
    c: "copy_block env_unbounded (Some 0) SyclHomogenNumericTableFloat 2 3 seven_rows_heap
          = (Ok q, h')"
    and d: "deref h' q = Some tb"
    and n: "getNumberOfRows tb = min (2 * 3 + 3) (getNumberOfRows seven_rows_x) - 2 * 3"
    by blast
  from r c obtain tb' where
    d': "deref h' q = Some tb'"
    and k: "getNumberOfColumns tb' = getNumberOfColumns seven_rows_x"
    and tt: "table_type tb' = SyclHomogenNumericTableFloat"
    and v: "\<forall>row col. row < getNumberOfRows tb' \<and> 2 * 3 + row < getNumberOfRows seven_rows_x
               \<and> col < getNumberOfColumns seven_rows_x \<longrightarrow>
             getBlockPtr tb' ! (row * getNumberOfColumns seven_rows_x + col)
               = store_element SyclHomogenNumericTableFloat
                   (getBlockPtr seven_rows_x ! ((2 * 3 + row) * getNumberOfColumns seven_rows_x + col))
             \<and> (SyclHomogenNumericTableFloat = SyclHomogenNumericTableDouble
                  \<or> (table_type seven_rows_x = SyclHomogenNumericTableFloat \<and> well_typed seven_rows_x)
                \<longrightarrow> getBlockPtr tb' ! (row * getNumberOfColumns seven_rows_x + col)
                     = getBlockPtr seven_rows_x
                         ! ((2 * 3 + row) * getNumberOfColumns seven_rows_x + col))"
    by blast
  have e: "tb' = tb" using d d' by simp
  have n1: "getNumberOfRows tb = 1" using n by (simp add: seven_rows_facts)
  have k2: "getNumberOfColumns tb = 2" using k by (simp add: e seven_rows_facts)
  have v0: "getBlockPtr tb ! (0 * 2 + 0) = getBlockPtr seven_rows_x ! ((2 * 3 + 0) * 2 + 0)"
    using v [rule_format, of 0 0, THEN conjunct2] seven_rows_typed(1,2)
    by (simp add: e n1 seven_rows_facts)
  have v1: "getBlockPtr tb ! (0 * 2 + 1) = getBlockPtr seven_rows_x ! ((2 * 3 + 0) * 2 + 1)"
    using v [rule_format, of 0 1, THEN conjunct2] seven_rows_typed(1,2)
    by (simp add: e n1 seven_rows_facts)
  show ?thesis using seven_rows_facts(1,3) seven_rows_typed(1,2) c d n1 k2 tt e v0 v1 by blast
qed

lemma double_column_facts:
  "deref \<lparr>tables = [double_column], csv_loaded = []\<rparr> (Some 0) = Some double_column"
  "well_formed double_column"
  "getNumberOfRows double_column = 2" "getNumberOfColumns double_column = 1"
  by (simp_all add: deref_def well_formed_def double_column_def)

text \<open>
  Claim C2 as stated fails. A double-precision table holds \<open>2 ^ 24 + 1 = 16777217\<close>; copied
  into the single-precision backend, the value is released into a table of \<open>float\<close> elements
  and reads back as \<open>16777216\<close>, which is not the source value.
\<close>

theorem copy_block_float_backend_rounds_counterexample:
  "copy_block env_unbounded (Some 0) SyclHomogenNumericTableFloat 0 2
      \<lparr>tables = [double_column], csv_loaded = []\<rparr>
     = (Ok (Some 1),
        \<lparr>tables =
           [double_column,
            \<lparr>table_type = SyclHomogenNumericTableFloat, getNumberOfColumns = 1,
             getNumberOfRows = 2, getBlockPtr = [Number 16777216, Number 3]\<rparr>],
         csv_loaded = []\<rparr>)
   \<and> getBlockPtr double_column ! ((0 * 2 + 0) * 1 + 0) = Number 16777217
   \<and> [Number 16777216, Number 3] ! (0 * 1 + 0) \<noteq> getBlockPtr double_column ! ((0 * 2 + 0) * 1 + 0)"
proof -
  have "copy_block env_unbounded (Some 0) SyclHomogenNumericTableFloat 0 2
          \<lparr>tables = [double_column], csv_loaded = []\<rparr>
        = (Ok (Some (length (tables \<lparr>tables = [double_column], csv_loaded = []\<rparr>))),
           \<lparr>tables = [double_column], csv_loaded = []\<rparr>
             \<lparr>tables := tables \<lparr>tables = [double_column], csv_loaded = []\<rparr> @
                [block_table SyclHomogenNumericTableFloat double_column (0 * 2)
                   (min (0 * 2 + 2) (getNumberOfRows double_column) - 0 * 2)]\<rparr>)"
    by (rule copy_block_in_range) (simp_all add: double_column_facts env_unbounded_def)
  moreover have "block_table SyclHomogenNumericTableFloat double_column (0 * 2)
                   (min (0 * 2 + 2) (getNumberOfRows double_column) - 0 * 2)
                 = \<lparr>table_type = SyclHomogenNumericTableFloat, getNumberOfColumns = 1,
                    getNumberOfRows = 2, getBlockPtr = [Number 16777216, Number 3]\<rparr>"
    by (simp add: block_table_def double_column_def double_to_float_16777217
          double_to_float_numeral)
  ultimately show ?thesis by (simp add: double_column_def)
qed





section \<open>Partitioning into blocks\<close>

lemma copy_block_step:
  assumes p: "deref h p = Some nt" and wf: "well_formed nt"
    and start: "i * b \<le> getNumberOfRows nt" and nowrap: "i * b + b < 2 ^ 64"
    and ty: "t \<noteq> OtherNumericTableType"
    and alloc: "can_allocate e (getNumberOfColumns nt) (block_rows (getNumberOfRows nt) b i)"
  obtains q h' where "copy_block e p t i b h = (Ok q, h')"
    and "deref h' q = Some (block_table t nt (i * b) (block_rows (getNumberOfRows nt) b i))"
    and "\<And>p' v. deref h p' = Some v \<Longrightarrow> deref h' p' = Some v"
proof -
  have a: "can_allocate e (getNumberOfColumns nt) (min (i * b + b) (getNumberOfRows nt) - i * b)"
    using alloc by (simp add: block_rows_def)
  show ?thesis
    using copy_block_in_range [OF p wf start nowrap ty a] that
    by (simp add: block_rows_def deref_new deref_append)
qed

lemma blocks_done_step:
  assumes dn: "blocks_done h blocks t nt bs i" and i: "i < length blocks"
    and new: "deref h' q = Some (block_table t nt (i * bs) (block_rows (getNumberOfRows nt) bs i))"
    and keep: "\<And>p v. deref h p = Some v \<Longrightarrow> deref h' p = Some v"
  shows "blocks_done h' (blocks[i := q]) t nt bs (Suc i)"
  unfolding blocks_done_def
proof (intro allI impI)
  fix j assume "j < Suc i"
  then consider "j < i" | "j = i" by linarith
  then show "deref h' (blocks[i := q] ! j)
               = Some (block_table t nt (j * bs) (block_rows (getNumberOfRows nt) bs j))"
  proof cases
    case 1
    then have "deref h (blocks ! j)
                 = Some (block_table t nt (j * bs) (block_rows (getNumberOfRows nt) bs j))"
      using dn by (simp add: blocks_done_def)
    then show ?thesis using 1 by (simp add: keep)
  next
    case 2
    then show ?thesis using i new by simp
  qed
qed

lemma set_block_step:
  assumes x: "deref h x = Some xt" and wfx: "well_formed xt"
    and y: "y \<noteq> None \<longrightarrow> deref h y = Some yt \<and> well_formed yt
              \<and> getNumberOfRows yt = getNumberOfRows xt"
    and ix: "i < length (x_blocks ds)" and iy: "y \<noteq> None \<longrightarrow> i < length (y_blocks ds)"
    and start: "i * bs \<le> getNumberOfRows xt" and nowrap: "i * bs + bs < 2 ^ 64"
    and ty: "t \<noteq> OtherNumericTableType"
    and allocx: "can_allocate e (getNumberOfColumns xt) (block_rows (getNumberOfRows xt) bs i)"
    and allocy: "y \<noteq> None \<longrightarrow>
                   can_allocate e (getNumberOfColumns yt) (block_rows (getNumberOfRows yt) bs i)"
  obtains ds' h' qx qy where "set_block e i bs x y t ds h = (Ok ds', h')"
    and "x_blocks ds' = (x_blocks ds)[i := qx]"
    and "deref h' qx = Some (block_table t xt (i * bs) (block_rows (getNumberOfRows xt) bs i))"
    and "y = None \<longrightarrow> y_blocks ds' = y_blocks ds"
    and "y \<noteq> None \<longrightarrow> y_blocks ds' = (y_blocks ds)[i := qy]
           \<and> deref h' qy = Some (block_table t yt (i * bs) (block_rows (getNumberOfRows yt) bs i))"
    and "\<And>p v. deref h p = Some v \<Longrightarrow> deref h' p = Some v"
    and "labeled ds' = labeled ds"
proof -
  from copy_block_step [OF x wfx start nowrap ty allocx] obtain qx h1 where
    cx: "copy_block e x t i bs h = (Ok qx, h1)"
    and dx: "deref h1 qx = Some (block_table t xt (i * bs) (block_rows (getNumberOfRows xt) bs i))"
    and k1: "\<And>p v. deref h p = Some v \<Longrightarrow> deref h1 p = Some v"
    by blast
  show ?thesis
  proof (cases "y = None")
    case True
    have "set_block e i bs x y t ds h = (Ok (ds\<lparr>x_blocks := (x_blocks ds)[i := qx]\<rparr>), h1)"
      using True ix by (simp add: set_block_def cx)
    then show ?thesis using that [of "ds\<lparr>x_blocks := (x_blocks ds)[i := qx]\<rparr>" h1 qx] True dx k1
      by simp
  next
    case False
    with y have dy: "deref h y = Some yt" and wfy: "well_formed yt"
      and ry: "getNumberOfRows yt = getNumberOfRows xt" by simp_all
    have dy1: "deref h1 y = Some yt" using dy by (rule k1)
    have starty: "i * bs \<le> getNumberOfRows yt" using start ry by simp
    have ay: "can_allocate e (getNumberOfColumns yt) (block_rows (getNumberOfRows yt) bs i)"
      using allocy False by simp
    from copy_block_step [OF dy1 wfy starty nowrap ty ay] obtain qy h2 where
      cy: "copy_block e y t i bs h1 = (Ok qy, h2)"
      and dyq: "deref h2 qy = Some (block_table t yt (i * bs) (block_rows (getNumberOfRows yt) bs i))"
      and k2: "\<And>p v. deref h1 p = Some v \<Longrightarrow> deref h2 p = Some v"
      by blast
    have iy': "i < length (y_blocks ds)" using iy False by simp
    have "set_block e i bs x y t ds h
            = (Ok (ds\<lparr>x_blocks := (x_blocks ds)[i := qx], y_blocks := (y_blocks ds)[i := qy]\<rparr>), h2)"
      using False ix iy' by (simp add: set_block_def cx cy)
    then show ?thesis
      using that [of "ds\<lparr>x_blocks := (x_blocks ds)[i := qx], y_blocks := (y_blocks ds)[i := qy]\<rparr>"
                     h2 qx qy] False dx dyq k1 k2
      by simp
  qed
qed

lemma initialize_loop_blocks:
  assumes x: "deref h x = Some xt" and wfx: "well_formed xt"
    and y: "y \<noteq> None \<longrightarrow> deref h y = Some yt \<and> well_formed yt
              \<and> getNumberOfRows yt = getNumberOfRows xt"
    and ty: "t \<noteq> OtherNumericTableType"
    and allocx: "\<forall>j<nb. can_allocate e (getNumberOfColumns xt)
                           (block_rows (getNumberOfRows xt) bs j)"
    and allocy: "y \<noteq> None \<longrightarrow>
                   (\<forall>j<nb. can_allocate e (getNumberOfColumns yt)
                              (block_rows (getNumberOfRows yt) bs j))"
    and range: "\<forall>j<nb. j * bs \<le> getNumberOfRows xt \<and> j * bs + bs < 2 ^ 64"
    and lx: "length (x_blocks ds) = nb" and ly: "y \<noteq> None \<longrightarrow> length (y_blocks ds) = nb"
    and i: "i \<le> nb"
    and dx: "blocks_done h (x_blocks ds) t xt bs i"
    and dy: "y \<noteq> None \<longrightarrow> blocks_done h (y_blocks ds) t yt bs i"
  shows "\<exists>ds' h'. initialize_loop e t nb bs x y i ds h = (Ok ds', h')
           \<and> length (x_blocks ds') = nb \<and> blocks_done h' (x_blocks ds') t xt bs nb
           \<and> (y = None \<longrightarrow> y_blocks ds' = y_blocks ds)
           \<and> (y \<noteq> None \<longrightarrow> length (y_blocks ds') = nb
                  \<and> blocks_done h' (y_blocks ds') t yt bs nb)
           \<and> labeled ds' = labeled ds"
  using x y lx ly i dx dy
proof (induction "nb - i" arbitrary: i ds h)
  case 0
  then have "i = nb" by simp
  then show ?case using 0 by (simp add: initialize_loop.simps)
next
  case (Suc k)
  then have i: "i < nb" by simp
  have start: "i * bs \<le> getNumberOfRows xt" and nowrap: "i * bs + bs < 2 ^ 64"
    using range i by simp_all
  have ix: "i < length (x_blocks ds)" using i Suc.prems(3) by simp
  have iy: "y \<noteq> None \<longrightarrow> i < length (y_blocks ds)" using i Suc.prems(4) by simp
  have ax: "can_allocate e (getNumberOfColumns xt) (block_rows (getNumberOfRows xt) bs i)"
    using allocx i by simp
  have ay: "y \<noteq> None \<longrightarrow>
              can_allocate e (getNumberOfColumns yt) (block_rows (getNumberOfRows yt) bs i)"
    using allocy i by simp
  from set_block_step [OF Suc.prems(1) wfx Suc.prems(2) ix iy start nowrap ty ax ay]
  obtain ds1 h1 qx qy where
    sb: "set_block e i bs x y t ds h = (Ok ds1, h1)"
    and xb: "x_blocks ds1 = (x_blocks ds)[i := qx]"
    and dqx: "deref h1 qx = Some (block_table t xt (i * bs) (block_rows (getNumberOfRows xt) bs i))"
    and yn: "y = None \<longrightarrow> y_blocks ds1 = y_blocks ds"
    and ys: "y \<noteq> None \<longrightarrow> y_blocks ds1 = (y_blocks ds)[i := qy]
           \<and> deref h1 qy = Some (block_table t yt (i * bs) (block_rows (getNumberOfRows yt) bs i))"
    and keep: "\<And>p v. deref h p = Some v \<Longrightarrow> deref h1 p = Some v"
    and lab: "labeled ds1 = labeled ds"
    by blast
  have k: "k = nb - Suc i" using Suc.hyps(2) by simp
  have x1: "deref h1 x = Some xt" using Suc.prems(1) by (rule keep)
  have y1: "y \<noteq> None \<longrightarrow> deref h1 y = Some yt \<and> well_formed yt
              \<and> getNumberOfRows yt = getNumberOfRows xt"
    using Suc.prems(2) keep by simp
  have lx1: "length (x_blocks ds1) = nb" using Suc.prems(3) xb by simp
  have ly1: "y \<noteq> None \<longrightarrow> length (y_blocks ds1) = nb" using Suc.prems(4) ys by simp
  have i1: "Suc i \<le> nb" using i by simp
  have dx1: "blocks_done h1 (x_blocks ds1) t xt bs (Suc i)"
    unfolding xb using Suc.prems(6) ix dqx keep by (rule blocks_done_step)
  have dy1: "y \<noteq> None \<longrightarrow> blocks_done h1 (y_blocks ds1) t yt bs (Suc i)"
  proof
    assume yy: "y \<noteq> None"
    have a: "blocks_done h (y_blocks ds) t yt bs i" using Suc.prems(7) yy by simp
    have b: "i < length (y_blocks ds)" using iy yy by simp
    have c: "deref h1 qy = Some (block_table t yt (i * bs) (block_rows (getNumberOfRows yt) bs i))"
      using ys yy by simp
    have "blocks_done h1 ((y_blocks ds)[i := qy]) t yt bs (Suc i)"
      using a b c keep by (rule blocks_done_step)
    then show "blocks_done h1 (y_blocks ds1) t yt bs (Suc i)" using ys yy by simp
  qed
  from Suc.hyps(1) [OF k x1 y1 lx1 ly1 i1 dx1 dy1]
  obtain ds' h' where
    r: "initialize_loop e t nb bs x y (Suc i) ds1 h1 = (Ok ds', h')"
       "length (x_blocks ds') = nb" "blocks_done h' (x_blocks ds') t xt bs nb"
       "y = None \<longrightarrow> y_blocks ds' = y_blocks ds1"
       "y \<noteq> None \<longrightarrow> length (y_blocks ds') = nb \<and> blocks_done h' (y_blocks ds') t yt bs nb"
       "labeled ds' = labeled ds1"
    by blast
  have "initialize_loop e t nb bs x y i ds h = (Ok ds', h')"
    using i sb r(1) by (subst initialize_loop.simps) simp
  then show ?case using r yn lab by simp
qed

lemma block_rows_full: "j * bs + bs \<le> R \<Longrightarrow> block_rows R bs j = bs"
  by (simp add: block_rows_def min_def)

lemma block_rows_last: "j * bs \<le> R \<Longrightarrow> R \<le> j * bs + bs \<Longrightarrow> block_rows R bs j = R - j * bs"
  by (simp add: block_rows_def min_def)

lemma sum_block_rows_full:
  "k * bs \<le> R \<Longrightarrow> sum_list (map (block_rows R bs) [0..<k]) = k * bs"
proof (induction k)
  case 0
  then show ?case by simp
next
  case (Suc k)
  then have "k * bs + bs \<le> R" by (simp add: add.commute)
  then show ?case using Suc by (simp add: block_rows_full)
qed

lemma sum_block_rows:
  assumes "0 < nb" and "(nb - 1) * bs \<le> R" and "R \<le> nb * bs"
  shows "sum_list (map (block_rows R bs) [0..<nb]) = R"
proof -
  obtain m where m: "nb = Suc m" using assms(1) by (cases nb) auto
  have a: "m * bs \<le> R" using assms(2) m by simp
  have b: "R \<le> m * bs + bs" using assms(3) m by (simp add: add.commute)
  show ?thesis using a by (simp add: m sum_block_rows_full block_rows_last [OF a b])
qed

lemma block_rows_partition:
  assumes nb: "0 < nb" and lo: "(nb - 1) * bs \<le> R" and hi: "R \<le> nb * bs" and j: "j < nb"
  shows "block_rows R bs j = (if j < nb - 1 then bs else R - (nb - 1) * bs)"
proof (cases "j < nb - 1")
  case True
  then have "Suc j \<le> nb - 1" by simp
  then have "Suc j * bs \<le> (nb - 1) * bs" by (simp only: mult_le_mono1)
  then have "j * bs + bs \<le> R" using lo by (simp add: add.commute)
  then show ?thesis using True by (simp add: block_rows_full)
next
  case False
  with j have e: "j = nb - 1" by simp
  have a: "j * bs \<le> R" using lo by (simp add: e)
  have "nb * bs = (nb - 1) * bs + bs" using nb by (cases nb) simp_all
  then have b: "R \<le> j * bs + bs" using hi by (simp add: e)
  have "block_rows R bs j = R - j * bs" using a b by (rule block_rows_last)
  then show ?thesis using False unfolding e by simp
qed

lemma blocks_done_partition:
  assumes dn: "blocks_done h blocks t nt bs nb" and len: "length blocks = nb"
    and nb: "0 < nb" and lo: "(nb - 1) * bs \<le> getNumberOfRows nt"
    and hi: "getNumberOfRows nt \<le> nb * bs"
  shows "row_partition h blocks t nt bs"
proof -
  define R where "R = getNumberOfRows nt"
  have d: "deref h (blocks ! j) = Some (block_table t nt (j * bs) (block_rows R bs j))"
    if "j < nb" for j
    using dn that by (simp add: blocks_done_def R_def)
  have rows: "block_rows R bs j = (if j < nb - 1 then bs else R - (nb - 1) * bs)"
    if j: "j < nb" for j
    using nb lo hi j unfolding R_def by (rule block_rows_partition)
  have 1: "list_all
        (\<lambda>j. case deref h (blocks ! j) of
               None \<Rightarrow> False
             | Some tb \<Rightarrow>
                 getNumberOfRows tb =
                   (if j < length blocks - 1 then bs
                    else getNumberOfRows nt - (length blocks - 1) * bs)
                 \<and> getNumberOfColumns tb = getNumberOfColumns nt
                 \<and> table_type tb = t
                 \<and> getBlockPtr tb =
                     map (store_element t)
                       (take (getNumberOfColumns nt * getNumberOfRows tb)
                          (drop (j * bs * getNumberOfColumns nt) (getBlockPtr nt))))
        [0..<length blocks]"
    unfolding list_all_iff
  proof
    fix j assume "j \<in> set [0..<length blocks]"
    then have j: "j < nb" using len by simp
    show "case deref h (blocks ! j) of
               None \<Rightarrow> False
             | Some tb \<Rightarrow>
                 getNumberOfRows tb =
                   (if j < length blocks - 1 then bs
                    else getNumberOfRows nt - (length blocks - 1) * bs)
                 \<and> getNumberOfColumns tb = getNumberOfColumns nt
                 \<and> table_type tb = t
                 \<and> getBlockPtr tb =
                     map (store_element t)
                       (take (getNumberOfColumns nt * getNumberOfRows tb)
                          (drop (j * bs * getNumberOfColumns nt) (getBlockPtr nt)))"
      using rows [OF j] by (simp add: d [OF j] block_table_def len R_def)
  qed
  have "map (\<lambda>j. case deref h (blocks ! j) of None \<Rightarrow> 0 | Some tb \<Rightarrow> getNumberOfRows tb)
          [0..<length blocks] = map (block_rows R bs) [0..<nb]"
    unfolding len by (rule map_cong) (simp_all add: d block_table_def)
  then have 2: "sum_list
          (map (\<lambda>j. case deref h (blocks ! j) of None \<Rightarrow> 0 | Some tb \<Rightarrow> getNumberOfRows tb)
             [0..<length blocks]) = getNumberOfRows nt"
    using sum_block_rows [OF nb, of bs R] lo hi by (simp add: R_def)
  show ?thesis unfolding row_partition_def using 1 2 by (rule conjI)
qed

lemma ceil_div_cover:
  fixes R nb :: nat
  shows "0 < nb \<Longrightarrow> R \<le> nb * ((R + nb - 1) div nb)"
proof -
  assume nb: "0 < nb"
  have "(R + nb - 1) mod nb < nb" using nb by simp
  then have "(R + nb - 1) mod nb \<le> nb - 1" by simp
  moreover have "nb * ((R + nb - 1) div nb) + (R + nb - 1) mod nb = R + nb - 1" by simp
  ultimately show ?thesis using nb by linarith
qed

lemma initialize_partition:
  assumes nb: "1 < num_blocks"
    and R: "getNumberOfRows xt < 2 ^ 24"
    and chunk: "chunk = nat \<lceil>(of_nat (getNumberOfRows xt) :: rat) / of_nat num_blocks\<rceil>"
    and lo: "(num_blocks - 1) * chunk \<le> getNumberOfRows xt"
    and x: "deref h x = Some xt" and wfx: "well_formed xt"
    and y: "y \<noteq> None \<longrightarrow> deref h y = Some yt \<and> well_formed yt
              \<and> getNumberOfRows yt = getNumberOfRows xt"
    and ty: "t \<noteq> OtherNumericTableType"
    and allocx: "can_allocate e (getNumberOfColumns xt) chunk"
      "can_allocate e (getNumberOfColumns xt) (getNumberOfRows xt - (num_blocks - 1) * chunk)"
    and allocy: "y \<noteq> None \<longrightarrow> can_allocate e (getNumberOfColumns yt) chunk
        \<and> can_allocate e (getNumberOfColumns yt) (getNumberOfRows xt - (num_blocks - 1) * chunk)"
    and lx: "length (x_blocks ds) = num_blocks"
    and ly: "y \<noteq> None \<longrightarrow> length (y_blocks ds) = num_blocks"
  shows "\<exists>ds' h'. initialize e t num_blocks x y ds h = (Ok ds', h')
           \<and> length (x_blocks ds') = num_blocks \<and> row_partition h' (x_blocks ds') t xt chunk
           \<and> (y \<noteq> None \<longrightarrow> length (y_blocks ds') = num_blocks
                  \<and> row_partition h' (y_blocks ds') t yt chunk)"
proof -
  define Rn where "Rn = getNumberOfRows xt"
  have nbpos: "0 < num_blocks" using nb by simp
  have cd: "chunk = (Rn + num_blocks - 1) div num_blocks"
    unfolding chunk Rn_def using nbpos by (rule ceiling_nat_div)
  have hi: "Rn \<le> num_blocks * chunk" unfolding cd using nbpos by (rule ceil_div_cover)
  have "block_size_of Rn num_blocks = chunk \<and> num_blocks * chunk < 2 ^ 64"
  proof (cases "Rn = 0")
    case True
    then have "chunk = 0" using nbpos by (simp add: cd)
    then show ?thesis using True by (simp add: block_size_of_no_rows)
  next
    case False
    with hi have "1 \<le> chunk" by (cases chunk) simp_all
    then have "(num_blocks - 1) * 1 \<le> (num_blocks - 1) * chunk" by (simp only: mult_le_mono2)
    then have "(num_blocks - 1) * 1 \<le> Rn" using lo unfolding Rn_def by (rule le_trans)
    then have "num_blocks - 1 \<le> Rn" by simp
    then have n24: "num_blocks \<le> 2 ^ 24" using R by (simp add: Rn_def)
    have bs: "block_size_of Rn num_blocks = chunk"
      unfolding cd using nbpos n24 R unfolding Rn_def by (rule block_size_of_exact_le)
    have "chunk \<le> Rn + num_blocks - 1" unfolding cd by (rule div_le_dividend)
    then have "chunk \<le> 2 ^ 25" using R n24 by (simp add: Rn_def)
    with n24 have "num_blocks * chunk \<le> 2 ^ 24 * 2 ^ 25" by (rule mult_le_mono)
    then have "num_blocks * chunk < 2 ^ 64" by simp
    with bs show ?thesis by simp
  qed
  then have bs: "block_size_of Rn num_blocks = chunk" and tot: "num_blocks * chunk < 2 ^ 64"
    by simp_all
  have range: "\<forall>j<num_blocks. j * chunk \<le> getNumberOfRows xt \<and> j * chunk + chunk < 2 ^ 64"
  proof (intro allI impI conjI)
    fix j assume j: "j < num_blocks"
    then have "j \<le> num_blocks - 1" by simp
    then have "j * chunk \<le> (num_blocks - 1) * chunk" by (simp only: mult_le_mono1)
    then show "j * chunk \<le> getNumberOfRows xt" using lo by (rule le_trans)
    have "Suc j \<le> num_blocks" using j by simp
    then have "Suc j * chunk \<le> num_blocks * chunk" by (simp only: mult_le_mono1)
    then show "j * chunk + chunk < 2 ^ 64" using tot by (simp add: add.commute)
  qed
  have d0x: "blocks_done h (x_blocks ds) t xt chunk 0" by (simp add: blocks_done_def)
  have d0y: "y \<noteq> None \<longrightarrow> blocks_done h (y_blocks ds) t yt chunk 0"
    by (simp add: blocks_done_def)
  have br: "block_rows (getNumberOfRows xt) chunk j
              = (if j < num_blocks - 1 then chunk
                 else getNumberOfRows xt - (num_blocks - 1) * chunk)"
    if "j < num_blocks" for j
    using nbpos lo hi that unfolding Rn_def by (rule block_rows_partition)
  have ax: "\<forall>j<num_blocks. can_allocate e (getNumberOfColumns xt)
                                 (block_rows (getNumberOfRows xt) chunk j)"
    using allocx by (simp add: br)
  have ay: "y \<noteq> None \<longrightarrow>
              (\<forall>j<num_blocks. can_allocate e (getNumberOfColumns yt)
                                   (block_rows (getNumberOfRows yt) chunk j))"
    using allocy y by (simp add: br)
  from initialize_loop_blocks [OF x wfx y ty ax ay range lx ly _ d0x d0y]
  obtain ds' h' where
    r: "initialize_loop e t num_blocks chunk x y 0 ds h = (Ok ds', h')"
       "length (x_blocks ds') = num_blocks" "blocks_done h' (x_blocks ds') t xt chunk num_blocks"
       "y \<noteq> None \<longrightarrow> length (y_blocks ds') = num_blocks
            \<and> blocks_done h' (y_blocks ds') t yt chunk num_blocks"
    by auto
  have i: "initialize e t num_blocks x y ds h = (Ok ds', h')"
    using nb x bs r(1) by (simp add: initialize_def Rn_def)
  have px: "row_partition h' (x_blocks ds') t xt chunk"
    using r(3) r(2) nbpos lo hi unfolding Rn_def by (rule blocks_done_partition)
  have py: "y \<noteq> None \<longrightarrow> row_partition h' (y_blocks ds') t yt chunk"
  proof
    assume yy: "y \<noteq> None"
    then have ry: "getNumberOfRows yt = getNumberOfRows xt" using y by simp
    have "blocks_done h' (y_blocks ds') t yt chunk num_blocks"
      and "length (y_blocks ds') = num_blocks" using r(4) yy by simp_all
    then show "row_partition h' (y_blocks ds') t yt chunk"
      using nbpos lo hi unfolding Rn_def ry [symmetric] by (rule blocks_done_partition)
  qed
  show ?thesis using i r(2) r(4) px py by blast
qed

text \<open>
  Claim C1, as amended. Let the source table have \<open>R < 2 ^ 24\<close> rows, let
  \<open>1 < num_blocks\<close>, and let every block start within the table, that is
  \<open>(num_blocks - 1) * ceil(R / num_blocks) \<le> R\<close>. Then, for an implemented table type and a
  library that allocates the block tables (a table of \<open>ceil(R / num_blocks)\<close> rows and one of
  the remaining rows, of the columns of the source), both constructors return a slice of
  \<open>num_blocks\<close> blocks that partition the rows \<open>[0, R)\<close> into contiguous chunks: every block
  except the last has exactly \<open>ceil(R / num_blocks)\<close> rows, the last has the remaining
  \<open>R - (num_blocks - 1) * ceil(R / num_blocks)\<close> rows, and the row counts add up to \<open>R\<close>;
  block \<open>j\<close> is a table of the requested backend holding the source rows from row
  \<open>j * ceil(R / num_blocks)\<close> on, converted to its element type. For the labeled constructor
  the label table, of the same number of rows, is partitioned in the same way.
\<close>

theorem DataSlice_ctor_row_partition:
  assumes "1 < num_blocks"
    and "getNumberOfRows xt < 2 ^ 24"
    and "chunk = nat \<lceil>(of_nat (getNumberOfRows xt) :: rat) / of_nat num_blocks\<rceil>"
    and "(num_blocks - 1) * chunk \<le> getNumberOfRows xt"
    and "deref h x = Some xt" and "well_formed xt"
    and "t \<noteq> OtherNumericTableType"
    and "can_allocate e (getNumberOfColumns xt) chunk"
    and "can_allocate e (getNumberOfColumns xt) (getNumberOfRows xt - (num_blocks - 1) * chunk)"
  shows "(\<exists>ds h'. DataSlice_ctor_x e x num_blocks t h = (Ok ds, h')
            \<and> length (x_blocks ds) = num_blocks \<and> row_partition h' (x_blocks ds) t xt chunk)
         \<and> (deref h y = Some yt \<and> well_formed yt \<and> getNumberOfRows yt = getNumberOfRows xt
              \<and> can_allocate e (getNumberOfColumns yt) chunk
              \<and> can_allocate e (getNumberOfColumns yt)
                    (getNumberOfRows xt - (num_blocks - 1) * chunk) \<longrightarrow>
             (\<exists>ds h'. DataSlice_ctor_xy e x y num_blocks t h = (Ok ds, h')
                \<and> length (x_blocks ds) = num_blocks \<and> row_partition h' (x_blocks ds) t xt chunk
                \<and> length (y_blocks ds) = num_blocks \<and> row_partition h' (y_blocks ds) t yt chunk))"
proof (intro conjI impI)
  show "\<exists>ds h'. DataSlice_ctor_x e x num_blocks t h = (Ok ds, h')
            \<and> length (x_blocks ds) = num_blocks \<and> row_partition h' (x_blocks ds) t xt chunk"
    using initialize_partition [OF assms(1-6) _ assms(7-9), where y = None and yt = xt
        and ds = "\<lparr>x_blocks = replicate num_blocks None, y_blocks = [], labeled = False\<rparr>"]
    by (auto simp: DataSlice_ctor_x_def)
next
  assume a: "deref h y = Some yt \<and> well_formed yt \<and> getNumberOfRows yt = getNumberOfRows xt
              \<and> can_allocate e (getNumberOfColumns yt) chunk
              \<and> can_allocate e (getNumberOfColumns yt)
                    (getNumberOfRows xt - (num_blocks - 1) * chunk)"
  then have "y \<noteq> None" by (cases y) (simp_all add: deref_def)
  then show "\<exists>ds h'. DataSlice_ctor_xy e x y num_blocks t h = (Ok ds, h')
                \<and> length (x_blocks ds) = num_blocks \<and> row_partition h' (x_blocks ds) t xt chunk
                \<and> length (y_blocks ds) = num_blocks \<and> row_partition h' (y_blocks ds) t yt chunk"
    using a initialize_partition [OF assms(1-6) _ assms(7-9), where y = y and yt = yt
        and ds = "\<lparr>x_blocks = replicate num_blocks None, y_blocks = replicate num_blocks None,
          labeled = True\<rparr>"]
    by (auto simp: DataSlice_ctor_xy_def)
qed

text \<open>
  Seven rows in three blocks, with a library that allocates tables of fewer than \<open>2 ^ 32\<close>
  elements: the chunk is \<open>ceil(7 / 3) = 3\<close>, the blocks have 3, 3 and 1 rows.
\<close>

theorem DataSlice_ctor_row_partition_witness:
  "(3 - 1) * nat \<lceil>(of_nat (getNumberOfRows seven_rows_x) :: rat) / of_nat 3\<rceil>
      \<le> getNumberOfRows seven_rows_x
   \<and> nat \<lceil>(of_nat (getNumberOfRows seven_rows_x) :: rat) / of_nat 3\<rceil> = 3
   \<and> can_allocate env_train_only (getNumberOfColumns seven_rows_x) 3
   \<and> can_allocate env_train_only (getNumberOfColumns seven_rows_x)
        (getNumberOfRows seven_rows_x - (3 - 1) * 3)
   \<and> \<not> can_allocate env_train_only 1 (2 ^ 32)
   \<and> (\<exists>ds h'. DataSlice_ctor_x env_train_only (Some 0) 3 SyclHomogenNumericTableFloat seven_rows_heap
                  = (Ok ds, h')
         \<and> length (x_blocks ds) = 3
         \<and> row_partition h' (x_blocks ds) SyclHomogenNumericTableFloat seven_rows_x 3)
   \<and> (\<exists>ds h'. DataSlice_ctor_xy env_train_only (Some 0) (Some 1) 3 SyclHomogenNumericTableFloat
                  seven_rows_heap = (Ok ds, h')
         \<and> length (x_blocks ds) = 3
         \<and> row_partition h' (x_blocks ds) SyclHomogenNumericTableFloat seven_rows_x 3
         \<and> length (y_blocks ds) = 3
         \<and> row_partition h' (y_blocks ds) SyclHomogenNumericTableFloat seven_rows_y 3)"
proof -
  have c: "3 = nat \<lceil>(of_nat (getNumberOfRows seven_rows_x) :: rat) / of_nat 3\<rceil>"
    using ceiling_nat_div [of 3 7] by (simp add: seven_rows_facts)
  have n: "(1 :: nat) < 3" "getNumberOfRows seven_rows_x < 2 ^ 24"
    "(3 - 1) * 3 \<le> getNumberOfRows seven_rows_x"
    by (simp_all add: seven_rows_facts)
  have t: "SyclHomogenNumericTableFloat \<noteq> OtherNumericTableType" by simp
  have a: "can_allocate env_train_only (getNumberOfColumns seven_rows_x) 3"
    "can_allocate env_train_only (getNumberOfColumns seven_rows_x)
        (getNumberOfRows seven_rows_x - (3 - 1) * 3)"
    "\<not> can_allocate env_train_only 1 (2 ^ 32)"
    by (simp_all add: env_train_only_def seven_rows_facts)
  have y: "deref seven_rows_heap (Some 1) = Some seven_rows_y \<and> well_formed seven_rows_y
             \<and> getNumberOfRows seven_rows_y = getNumberOfRows seven_rows_x
             \<and> can_allocate env_train_only (getNumberOfColumns seven_rows_y) 3
             \<and> can_allocate env_train_only (getNumberOfColumns seven_rows_y)
                    (getNumberOfRows seven_rows_x - (3 - 1) * 3)"
    using seven_rows_facts(2) by (simp add: seven_rows_facts(3-) env_train_only_def)
  note p = DataSlice_ctor_row_partition
    [OF n(1,2) c n(3) seven_rows_facts(1) seven_rows_facts(3) t a(1,2), of "Some 1" seven_rows_y]
  have 1: "(3 - 1) * nat \<lceil>(of_nat (getNumberOfRows seven_rows_x) :: rat) / of_nat 3\<rceil>
             \<le> getNumberOfRows seven_rows_x"
    using n(3) by (simp only: c [symmetric])
  have 2: "\<exists>ds h'. DataSlice_ctor_x env_train_only (Some 0) 3 SyclHomogenNumericTableFloat
                     seven_rows_heap = (Ok ds, h')
             \<and> length (x_blocks ds) = 3
             \<and> row_partition h' (x_blocks ds) SyclHomogenNumericTableFloat seven_rows_x 3"
    using p by (rule conjunct1)
  have 3: "\<exists>ds h'. DataSlice_ctor_xy env_train_only (Some 0) (Some 1) 3 SyclHomogenNumericTableFloat
                  seven_rows_heap = (Ok ds, h')
         \<and> length (x_blocks ds) = 3
         \<and> row_partition h' (x_blocks ds) SyclHomogenNumericTableFloat seven_rows_x 3
         \<and> length (y_blocks ds) = 3
         \<and> row_partition h' (y_blocks ds) SyclHomogenNumericTableFloat seven_rows_y 3"
    using p y by (rule conjunct2 [THEN mp])
  show ?thesis using 1 c [symmetric] a 2 3 by (intro conjI)
qed

text \<open>
  Claim C1 as stated fails. Five rows in four blocks: the chunk is \<open>ceil(5 / 4) = 2\<close>, the
  third of the four blocks gets the one remaining row, and for the fourth block
  \<open>start_row = 6\<close> exceeds \<open>end_row = 5\<close>; \<open>end_row - start_row\<close> wraps around to \<open>2 ^ 64 - 1\<close>
  rows, which a library that allocates tables of fewer than \<open>2 ^ 32\<close> elements refuses, and the
  constructor throws. No partition with three blocks of two rows exists for five rows.
  And for \<open>2 ^ 24 + 1\<close> rows in two blocks the \<open>float\<close> computation gives the block size
  \<open>8388608\<close>, not the ceiling \<open>8388609\<close>, so that two blocks cover one row less than the table.
\<close>

theorem DataSlice_ctor_row_partition_counterexample:
  "DataSlice_ctor_x env_train_only (Some 0) 4 SyclHomogenNumericTableDouble
      \<lparr>tables = [five_rows], csv_loaded = []\<rparr>
     = (Throw (EmptyNumericTable ''The numeric table is empty''),
        \<lparr>tables =
           [five_rows,
            \<lparr>table_type = SyclHomogenNumericTableDouble, getNumberOfColumns = 1,
             getNumberOfRows = 2, getBlockPtr = [Number 10, Number 20]\<rparr>,
            \<lparr>table_type = SyclHomogenNumericTableDouble, getNumberOfColumns = 1,
             getNumberOfRows = 2, getBlockPtr = [Number 30, Number 40]\<rparr>,
            \<lparr>table_type = SyclHomogenNumericTableDouble, getNumberOfColumns = 1,
             getNumberOfRows = 1, getBlockPtr = [Number 50]\<rparr>],
         csv_loaded = []\<rparr>)
   \<and> nat \<lceil>(5 :: rat) / 4\<rceil> = 2
   \<and> block_size_of 16777217 2 = 8388608
   \<and> nat \<lceil>(16777217 :: rat) / 2\<rceil> = 8388609"
proof -
  define t :: NumericTableType where "t = SyclHomogenNumericTableDouble"
  define b0 where "b0 = \<lparr>table_type = t, getNumberOfColumns = 1,
             getNumberOfRows = 2, getBlockPtr = [Number 10, Number 20]\<rparr>"
  define b1 where "b1 = \<lparr>table_type = t, getNumberOfColumns = 1,
             getNumberOfRows = 2, getBlockPtr = [Number 30, Number 40]\<rparr>"
  define b2 where "b2 = \<lparr>table_type = t, getNumberOfColumns = 1,
             getNumberOfRows = 1, getBlockPtr = [Number 50]\<rparr>"
  note ev = set_block_def copy_block_def create_numeric_table_def deref_def five_rows_def
    env_train_only_def size_mul_def size_add_def size_sub_def Let_def releaseBlockOfRows_def
  have rep: "replicate 4 None = [None, None, None, None :: NumericTablePtr]"
    by (simp add: numeral_eq_Suc)
  have s0: "set_block env_train_only 0 2 (Some 0) None t
              \<lparr>x_blocks = [None, None, None, None], y_blocks = [], labeled = False\<rparr>
              \<lparr>tables = [five_rows], csv_loaded = []\<rparr>
            = (Ok \<lparr>x_blocks = [Some 1, None, None, None], y_blocks = [], labeled = False\<rparr>,
               \<lparr>tables = [five_rows, b0], csv_loaded = []\<rparr>)"
    by (simp add: ev b0_def t_def)
  have s1: "set_block env_train_only (0 + 1) 2 (Some 0) None t
              \<lparr>x_blocks = [Some 1, None, None, None], y_blocks = [], labeled = False\<rparr>
              \<lparr>tables = [five_rows, b0], csv_loaded = []\<rparr>
            = (Ok \<lparr>x_blocks = [Some 1, Some 2, None, None], y_blocks = [], labeled = False\<rparr>,
               \<lparr>tables = [five_rows, b0, b1], csv_loaded = []\<rparr>)"
    by (simp add: ev b1_def t_def)
  have s2: "set_block env_train_only (0 + 1 + 1) 2 (Some 0) None t
              \<lparr>x_blocks = [Some 1, Some 2, None, None], y_blocks = [], labeled = False\<rparr>
              \<lparr>tables = [five_rows, b0, b1], csv_loaded = []\<rparr>
            = (Ok \<lparr>x_blocks = [Some 1, Some 2, Some 3, None], y_blocks = [], labeled = False\<rparr>,
               \<lparr>tables = [five_rows, b0, b1, b2], csv_loaded = []\<rparr>)"
    by (simp add: ev b2_def t_def)
  have s3: "set_block env_train_only (0 + 1 + 1 + 1) 2 (Some 0) None t
              \<lparr>x_blocks = [Some 1, Some 2, Some 3, None], y_blocks = [], labeled = False\<rparr>
              \<lparr>tables = [five_rows, b0, b1, b2], csv_loaded = []\<rparr>
            = (Throw (EmptyNumericTable ''The numeric table is empty''),
               \<lparr>tables = [five_rows, b0, b1, b2], csv_loaded = []\<rparr>)"
    by (simp add: ev t_def)
  have lt: "(0 :: nat) < 4" "(0 + 1 :: nat) < 4" "(0 + 1 + 1 :: nat) < 4" "(0 + 1 + 1 + 1 :: nat) < 4"
    by simp_all
  have l0: "initialize_loop env_train_only t 4 2 (Some 0) None 0
              \<lparr>x_blocks = [None, None, None, None], y_blocks = [], labeled = False\<rparr>
              \<lparr>tables = [five_rows], csv_loaded = []\<rparr>
            = (Throw (EmptyNumericTable ''The numeric table is empty''),
               \<lparr>tables = [five_rows, b0, b1, b2], csv_loaded = []\<rparr>)"
    apply (subst initialize_loop.simps, subst s0, simp only: lt if_True prod.case result.case)
    apply (subst initialize_loop.simps, subst s1, simp only: lt if_True prod.case result.case)
    apply (subst initialize_loop.simps, subst s2, simp only: lt if_True prod.case result.case)
    apply (subst initialize_loop.simps, subst s3, simp only: lt if_True prod.case result.case)
    done
  have r5: "getNumberOfRows five_rows = 5" by (simp add: five_rows_def)
  have c: "DataSlice_ctor_x env_train_only (Some 0) 4 t
      \<lparr>tables = [five_rows], csv_loaded = []\<rparr>
     = (Throw (EmptyNumericTable ''The numeric table is empty''),
               \<lparr>tables = [five_rows, b0, b1, b2], csv_loaded = []\<rparr>)"
    by (simp add: DataSlice_ctor_x_def initialize_def deref_def r5 block_size_of_5_4 rep l0)
  have d: "nat \<lceil>(5 :: rat) / 4\<rceil> = 2" "nat \<lceil>(16777217 :: rat) / 2\<rceil> = 8388609"
    using ceiling_nat_div [of 4 5] ceiling_nat_div [of 2 16777217] by simp_all
  show ?thesis
    using c d block_size_of_16777217 unfolding b0_def b1_def b2_def t_def by simp
qed

section \<open>Block accessors of \<open>DataSlice\<close>\<close>

text \<open>
  Claim C4, as amended. \<open>x_block(i)\<close> throws \<open>EmptyNumericTable\<close> when the feature block
  sequence is empty, and when \<open>i\<close> is within the sequence and the handle at \<open>i\<close> is null; for
  \<open>i\<close> within the sequence and a non-null handle it returns block \<open>i\<close>. The same holds for
  \<open>y_block(i)\<close> and the label block sequence. Nothing is said about an index beyond the end
  of a non-empty sequence: the vector is indexed without a bounds check.
\<close>

theorem x_block_y_block_unchecked_index:
  "(x_blocks ds = [] \<longrightarrow>
      x_block ds i = Throw (EmptyNumericTable ''Dataset does not contain X slice''))
   \<and> (i < length (x_blocks ds) \<and> x_blocks ds ! i = None \<longrightarrow>
      x_block ds i = Throw (EmptyNumericTable ''Dataset does not contain X slice''))
   \<and> (i < length (x_blocks ds) \<and> x_blocks ds ! i \<noteq> None \<longrightarrow>
      x_block ds i = Ok (x_blocks ds ! i))
   \<and> (y_blocks ds = [] \<longrightarrow>
      y_block ds i = Throw (EmptyNumericTable ''Dataset does not contain Y slice''))
   \<and> (i < length (y_blocks ds) \<and> y_blocks ds ! i = None \<longrightarrow>
      y_block ds i = Throw (EmptyNumericTable ''Dataset does not contain Y slice''))
   \<and> (i < length (y_blocks ds) \<and> y_blocks ds ! i \<noteq> None \<longrightarrow>
      y_block ds i = Ok (y_blocks ds ! i))"
  by (auto simp: x_block_def y_block_def)

text \<open>The three cases of each accessor, on an empty slice and on a slice of two blocks.\<close>

theorem x_block_y_block_unchecked_index_witness:
  "x_block make_empty 3 = Throw (EmptyNumericTable ''Dataset does not contain X slice'')
   \<and> y_block make_empty 3 = Throw (EmptyNumericTable ''Dataset does not contain Y slice'')
   \<and> x_block \<lparr>x_blocks = [Some 4, None], y_blocks = [None, Some 5], labeled = True\<rparr> 1
       = Throw (EmptyNumericTable ''Dataset does not contain X slice'')
   \<and> y_block \<lparr>x_blocks = [Some 4, None], y_blocks = [None, Some 5], labeled = True\<rparr> 1
       = Ok (Some 5)
   \<and> x_block \<lparr>x_blocks = [Some 4, None], y_blocks = [None, Some 5], labeled = True\<rparr> 0
       = Ok (Some 4)
   \<and> y_block \<lparr>x_blocks = [Some 4, None], y_blocks = [None, Some 5], labeled = True\<rparr> 0
       = Throw (EmptyNumericTable ''Dataset does not contain Y slice'')"
  using x_block_y_block_unchecked_index [of make_empty 3]
    x_block_y_block_unchecked_index
      [of "\<lparr>x_blocks = [Some 4, None], y_blocks = [None, Some 5], labeled = True\<rparr>" 1]
    x_block_y_block_unchecked_index
      [of "\<lparr>x_blocks = [Some 4, None], y_blocks = [None, Some 5], labeled = True\<rparr>" 0]
  by (simp add: make_empty_def)

text \<open>
  Claim C4 as stated fails: on a slice of one block, \<open>x_block(1)\<close> is out of range, the guard
  \<open>x_blocks_.empty()\<close> does not fire and \<open>x_blocks_[1]\<close> is read outside the vector; no
  \<open>EmptyNumericTable\<close> is thrown.
\<close>

theorem x_block_out_of_range_counterexample:
  "x_block \<lparr>x_blocks = [Some 0], y_blocks = [], labeled = False\<rparr> 1
     \<noteq> Throw (EmptyNumericTable ''Dataset does not contain X slice'')
   \<and> x_block \<lparr>x_blocks = [Some 0], y_blocks = [], labeled = False\<rparr> 1 = Undefined"
  by (simp add: x_block_def)

text \<open>
  Claim C5 at its failing input. \<open>xy_blocks\<close> has no \<open>empty()\<close> guard: on an unlabeled slice
  of one block (the label block sequence is empty) \<open>xy_blocks(0)\<close> reads \<open>y_blocks_[0]\<close>
  outside the vector, and on a slice without blocks it reads \<open>x_blocks_[0]\<close> outside the
  vector, where the claim asks for \<open>EmptyNumericTable\<close>. The sibling accessors
  \<open>y_block(0)\<close> and \<open>xy()\<close> do throw \<open>EmptyNumericTable\<close> on the same slice.
\<close>

theorem xy_blocks_empty_sequence_unchecked:
  "xy_blocks \<lparr>x_blocks = [Some 0], y_blocks = [], labeled = False\<rparr> 0 = Undefined
   \<and> xy_blocks make_empty 0 = Undefined
   \<and> y_block \<lparr>x_blocks = [Some 0], y_blocks = [], labeled = False\<rparr> 0
       = Throw (EmptyNumericTable ''Dataset does not contain Y slice'')
   \<and> xy \<lparr>x_blocks = [Some 0], y_blocks = [], labeled = False\<rparr>
       = Throw (EmptyNumericTable ''Dataset does not contain either X or Y slices'')"
  by (simp add: xy_blocks_def make_empty_def y_block_def xy_def)

section \<open>Fallback accessors of \<open>Dataset\<close>\<close>

text \<open>
  Claim C7. \<open>full_or_train()\<close> returns the full slice when it is not empty, else the train
  slice when that is not empty, else throws \<open>EmptyNumericTable\<close>; \<open>full_or_test()\<close> does the
  same with the test slice.
\<close>

theorem full_or_train_full_or_test:
  "(\<not> DataSlice_empty (full_slice d) \<longrightarrow>
      full_or_train d = Ok (full_slice d) \<and> full_or_test d = Ok (full_slice d))
   \<and> (DataSlice_empty (full_slice d) \<and> \<not> DataSlice_empty (train_slice d) \<longrightarrow>
      full_or_train d = Ok (train_slice d))
   \<and> (DataSlice_empty (full_slice d) \<and> DataSlice_empty (train_slice d) \<longrightarrow>
      full_or_train d = Throw (EmptyNumericTable ''Full and Train slices of the dataset are empty''))
   \<and> (DataSlice_empty (full_slice d) \<and> \<not> DataSlice_empty (test_slice d) \<longrightarrow>
      full_or_test d = Ok (test_slice d))
   \<and> (DataSlice_empty (full_slice d) \<and> DataSlice_empty (test_slice d) \<longrightarrow>
      full_or_test d = Throw (EmptyNumericTable ''Full and Test slices of the dataset are empty''))"
  by (simp add: full_or_train_def full_or_test_def has_full_def has_train_def has_test_def
      full_def train_def test_def)

text \<open>A dataset with a full slice, one with train and test slices only, and an empty one.\<close>

theorem full_or_train_full_or_test_witness:
  "full_or_train (Dataset_ctor slice_one slice_two slice_two make_empty) = Ok slice_two
   \<and> full_or_test (Dataset_ctor slice_one slice_two slice_two make_empty) = Ok slice_two
   \<and> full_or_train (Dataset_ctor slice_one slice_two make_empty make_empty) = Ok slice_one
   \<and> full_or_test (Dataset_ctor slice_one slice_two make_empty make_empty) = Ok slice_two
   \<and> full_or_train (Dataset_ctor make_empty make_empty make_empty make_empty)
       = Throw (EmptyNumericTable ''Full and Train slices of the dataset are empty'')
   \<and> full_or_test (Dataset_ctor make_empty make_empty make_empty make_empty)
       = Throw (EmptyNumericTable ''Full and Test slices of the dataset are empty'')"
  using full_or_train_full_or_test [of "Dataset_ctor slice_one slice_two slice_two make_empty"]
    full_or_train_full_or_test [of "Dataset_ctor slice_one slice_two make_empty make_empty"]
    full_or_train_full_or_test [of "Dataset_ctor make_empty make_empty make_empty make_empty"]
  by (simp add: Dataset_ctor_def DataSlice_empty_def slice_one_def slice_two_def make_empty_def)

section \<open>Clearing a \<open>Dataset\<close>\<close>

lemma DataSlice_clear_props:
  "x_blocks (DataSlice_clear s) = replicate (length (x_blocks s)) None"
  "y_blocks (DataSlice_clear s) = replicate (length (y_blocks s)) None"
  "labeled (DataSlice_clear s) = labeled s"
  "DataSlice_empty (DataSlice_clear s) = DataSlice_empty s"
  by (simp_all add: DataSlice_clear_def DataSlice_empty_def map_replicate_const)

lemma Dataset_clear_slices:
  "train_slice (Dataset_clear d) = DataSlice_clear (train_slice d)"
  "test_slice (Dataset_clear d) = DataSlice_clear (test_slice d)"
  "full_slice (Dataset_clear d) = DataSlice_clear (full_slice d)"
  "index_slice (Dataset_clear d) = DataSlice_clear (index_slice d)"
  by (simp_all add: Dataset_clear_def)

text \<open>
  Claim C6, as amended. After \<open>Dataset::clear()\<close> every handle of every block sequence of
  the train, test, full and index slices is null, so \<open>x_block(i)\<close> and \<open>y_block(i)\<close> throw
  \<open>EmptyNumericTable\<close> at every index of a sequence. The sequences keep their lengths, so
  \<open>empty()\<close> of each slice and \<open>has_full()\<close>, \<open>has_train()\<close>, \<open>has_test()\<close> answer as before
  the call, and \<open>full()\<close>, \<open>train()\<close>, \<open>test()\<close>, \<open>index()\<close> throw \<open>EmptyNumericTable\<close> exactly
  when they did before the call; when they do not throw they return the cleared slice, that
  is the slice of before with every handle null.
\<close>

theorem clear_resets_handles_keeps_lengths:
  "(\<forall>f \<in> {train_slice, test_slice, full_slice, index_slice}.
     x_blocks (f (Dataset_clear d)) = replicate (length (x_blocks (f d))) None
     \<and> y_blocks (f (Dataset_clear d)) = replicate (length (y_blocks (f d))) None
     \<and> DataSlice_empty (f (Dataset_clear d)) = DataSlice_empty (f d)
     \<and> (\<forall>i < length (x_blocks (f d)).
          x_block (f (Dataset_clear d)) i
            = Throw (EmptyNumericTable ''Dataset does not contain X slice''))
     \<and> (\<forall>i < length (y_blocks (f d)).
          y_block (f (Dataset_clear d)) i
            = Throw (EmptyNumericTable ''Dataset does not contain Y slice'')))
   \<and> has_full (Dataset_clear d) = has_full d
   \<and> has_train (Dataset_clear d) = has_train d
   \<and> has_test (Dataset_clear d) = has_test d
   \<and> full (Dataset_clear d)
       = (if has_full d then Ok (DataSlice_clear (full_slice d))
          else Throw (EmptyNumericTable ''Full slice of the dataset is empty''))
   \<and> train (Dataset_clear d)
       = (if has_train d then Ok (DataSlice_clear (train_slice d))
          else Throw (EmptyNumericTable ''Train slice of the dataset is empty''))
   \<and> test (Dataset_clear d)
       = (if has_test d then Ok (DataSlice_clear (test_slice d))
          else Throw (EmptyNumericTable ''Test slice of the dataset is empty''))
   \<and> index (Dataset_clear d)
       = (if DataSlice_empty (index_slice d)
          then Throw (EmptyNumericTable ''Index slice of the dataset is empty'')
          else Ok (DataSlice_clear (index_slice d)))
   \<and> (full d = Throw (EmptyNumericTable ''Full slice of the dataset is empty'')) =
       (full (Dataset_clear d) = Throw (EmptyNumericTable ''Full slice of the dataset is empty''))
   \<and> (train d = Throw (EmptyNumericTable ''Train slice of the dataset is empty'')) =
       (train (Dataset_clear d) = Throw (EmptyNumericTable ''Train slice of the dataset is empty''))
   \<and> (test d = Throw (EmptyNumericTable ''Test slice of the dataset is empty'')) =
       (test (Dataset_clear d) = Throw (EmptyNumericTable ''Test slice of the dataset is empty''))
   \<and> (index d = Throw (EmptyNumericTable ''Index slice of the dataset is empty'')) =
       (index (Dataset_clear d) = Throw (EmptyNumericTable ''Index slice of the dataset is empty''))"
proof -
  have 1: "\<forall>f \<in> {train_slice, test_slice, full_slice, index_slice}.
     x_blocks (f (Dataset_clear d)) = replicate (length (x_blocks (f d))) None
     \<and> y_blocks (f (Dataset_clear d)) = replicate (length (y_blocks (f d))) None
     \<and> DataSlice_empty (f (Dataset_clear d)) = DataSlice_empty (f d)
     \<and> (\<forall>i < length (x_blocks (f d)).
          x_block (f (Dataset_clear d)) i
            = Throw (EmptyNumericTable ''Dataset does not contain X slice''))
     \<and> (\<forall>i < length (y_blocks (f d)).
          y_block (f (Dataset_clear d)) i
            = Throw (EmptyNumericTable ''Dataset does not contain Y slice''))"
    by (auto simp: Dataset_clear_def DataSlice_clear_props x_block_def y_block_def)
  have 2: "has_full (Dataset_clear d) = has_full d" "has_train (Dataset_clear d) = has_train d"
    "has_test (Dataset_clear d) = has_test d"
    by (simp_all add: has_full_def has_train_def has_test_def Dataset_clear_slices
          DataSlice_clear_props)
  have 3: "full (Dataset_clear d)
       = (if has_full d then Ok (DataSlice_clear (full_slice d))
          else Throw (EmptyNumericTable ''Full slice of the dataset is empty''))"
    "train (Dataset_clear d)
       = (if has_train d then Ok (DataSlice_clear (train_slice d))
          else Throw (EmptyNumericTable ''Train slice of the dataset is empty''))"
    "test (Dataset_clear d)
       = (if has_test d then Ok (DataSlice_clear (test_slice d))
          else Throw (EmptyNumericTable ''Test slice of the dataset is empty''))"
    "index (Dataset_clear d)
       = (if DataSlice_empty (index_slice d)
          then Throw (EmptyNumericTable ''Index slice of the dataset is empty'')
          else Ok (DataSlice_clear (index_slice d)))"
    by (simp_all add: full_def train_def test_def index_def has_full_def has_train_def
          has_test_def Dataset_clear_slices DataSlice_clear_props)
  have 4: "(full d = Throw (EmptyNumericTable ''Full slice of the dataset is empty'')) =
       (full (Dataset_clear d) = Throw (EmptyNumericTable ''Full slice of the dataset is empty''))"
    "(train d = Throw (EmptyNumericTable ''Train slice of the dataset is empty'')) =
       (train (Dataset_clear d) = Throw (EmptyNumericTable ''Train slice of the dataset is empty''))"
    "(test d = Throw (EmptyNumericTable ''Test slice of the dataset is empty'')) =
       (test (Dataset_clear d) = Throw (EmptyNumericTable ''Test slice of the dataset is empty''))"
    "(index d = Throw (EmptyNumericTable ''Index slice of the dataset is empty'')) =
       (index (Dataset_clear d) = Throw (EmptyNumericTable ''Index slice of the dataset is empty''))"
    by (simp_all add: full_def train_def test_def index_def Dataset_clear_slices
          DataSlice_clear_props)
  show ?thesis using 1 2 3 4 by (intro conjI)
qed

text \<open>
  The loaded dataset, cleared: its train slice keeps one null feature and one null label
  block, \<open>has_train()\<close> is still true and \<open>train()\<close> returns the slice of null handles; the
  full slice was empty and is empty, and \<open>full()\<close> throws as before.
\<close>

theorem clear_resets_handles_keeps_lengths_witness:
  "x_blocks (train_slice (Dataset_clear loaded_dataset)) = [None]
   \<and> y_blocks (train_slice (Dataset_clear loaded_dataset)) = [None]
   \<and> \<not> DataSlice_empty (train_slice (Dataset_clear loaded_dataset))
   \<and> x_block (train_slice (Dataset_clear loaded_dataset)) 0
       = Throw (EmptyNumericTable ''Dataset does not contain X slice'')
   \<and> y_block (train_slice (Dataset_clear loaded_dataset)) 0
       = Throw (EmptyNumericTable ''Dataset does not contain Y slice'')
   \<and> DataSlice_empty (full_slice (Dataset_clear loaded_dataset))
   \<and> has_train loaded_dataset \<and> has_train (Dataset_clear loaded_dataset)
   \<and> train loaded_dataset = Ok \<lparr>x_blocks = [Some 0], y_blocks = [Some 1], labeled = True\<rparr>
   \<and> train (Dataset_clear loaded_dataset)
       = Ok \<lparr>x_blocks = [None], y_blocks = [None], labeled = True\<rparr>
   \<and> \<not> has_full loaded_dataset \<and> \<not> has_full (Dataset_clear loaded_dataset)
   \<and> full loaded_dataset = Throw (EmptyNumericTable ''Full slice of the dataset is empty'')
   \<and> full (Dataset_clear loaded_dataset)
       = Throw (EmptyNumericTable ''Full slice of the dataset is empty'')"
proof -
  note r = clear_resets_handles_keeps_lengths [of loaded_dataset]
  have s: "train_slice loaded_dataset
             = \<lparr>x_blocks = [Some 0], y_blocks = [Some 1], labeled = True\<rparr>"
    "full_slice loaded_dataset = make_empty"
    by (simp_all add: loaded_dataset_def)
  have e: "\<not> DataSlice_empty (train_slice loaded_dataset)"
    "DataSlice_empty (full_slice loaded_dataset)"
    by (simp_all add: s DataSlice_empty_def make_empty_def)
  have h: "has_train loaded_dataset" "\<not> has_full loaded_dataset"
    using e by (simp_all add: has_train_def has_full_def)
  have a: "train loaded_dataset = Ok \<lparr>x_blocks = [Some 0], y_blocks = [Some 1], labeled = True\<rparr>"
    "full loaded_dataset = Throw (EmptyNumericTable ''Full slice of the dataset is empty'')"
    using e by (simp_all add: train_def full_def s)
  have c: "DataSlice_clear (train_slice loaded_dataset)
             = \<lparr>x_blocks = [None], y_blocks = [None], labeled = True\<rparr>"
    by (simp add: s DataSlice_clear_def)
  from r have "train_slice \<in> {train_slice, test_slice, full_slice, index_slice} \<longrightarrow>
     x_blocks (train_slice (Dataset_clear loaded_dataset))
       = replicate (length (x_blocks (train_slice loaded_dataset))) None
     \<and> y_blocks (train_slice (Dataset_clear loaded_dataset))
       = replicate (length (y_blocks (train_slice loaded_dataset))) None
     \<and> DataSlice_empty (train_slice (Dataset_clear loaded_dataset))
       = DataSlice_empty (train_slice loaded_dataset)
     \<and> (\<forall>i < length (x_blocks (train_slice loaded_dataset)).
          x_block (train_slice (Dataset_clear loaded_dataset)) i
            = Throw (EmptyNumericTable ''Dataset does not contain X slice''))
     \<and> (\<forall>i < length (y_blocks (train_slice loaded_dataset)).
          y_block (train_slice (Dataset_clear loaded_dataset)) i
            = Throw (EmptyNumericTable ''Dataset does not contain Y slice''))"
    by blast
  then have t: "x_blocks (train_slice (Dataset_clear loaded_dataset)) = [None]"
    "y_blocks (train_slice (Dataset_clear loaded_dataset)) = [None]"
    "\<not> DataSlice_empty (train_slice (Dataset_clear loaded_dataset))"
    "x_block (train_slice (Dataset_clear loaded_dataset)) 0
       = Throw (EmptyNumericTable ''Dataset does not contain X slice'')"
    "y_block (train_slice (Dataset_clear loaded_dataset)) 0
       = Throw (EmptyNumericTable ''Dataset does not contain Y slice'')"
    using e(1) by (simp_all add: s)
  from r have "full_slice \<in> {train_slice, test_slice, full_slice, index_slice} \<longrightarrow>
     DataSlice_empty (full_slice (Dataset_clear loaded_dataset))
       = DataSlice_empty (full_slice loaded_dataset)"
    by blast
  then have f: "DataSlice_empty (full_slice (Dataset_clear loaded_dataset))"
    using e(2) by simp
  from r have g: "has_train (Dataset_clear loaded_dataset) = has_train loaded_dataset"
    "has_full (Dataset_clear loaded_dataset) = has_full loaded_dataset"
    "train (Dataset_clear loaded_dataset)
       = (if has_train loaded_dataset then Ok (DataSlice_clear (train_slice loaded_dataset))
          else Throw (EmptyNumericTable ''Train slice of the dataset is empty''))"
    "full (Dataset_clear loaded_dataset)
       = (if has_full loaded_dataset then Ok (DataSlice_clear (full_slice loaded_dataset))
          else Throw (EmptyNumericTable ''Full slice of the dataset is empty''))"
    by blast+
  show ?thesis using t f h a g c by simp
qed

text \<open>
  Claim C6 as stated fails: a dataset whose full slice holds one block still has a
  non-empty full slice after \<open>clear()\<close>; \<open>has_full()\<close> is true and \<open>full()\<close> returns the slice
  (with a null handle) instead of throwing.
\<close>

theorem clear_keeps_slices_nonempty_counterexample:
  "has_full (Dataset_clear (Dataset_ctor make_empty make_empty slice_one make_empty))
   \<and> \<not> DataSlice_empty (full_slice (Dataset_clear (Dataset_ctor make_empty make_empty slice_one make_empty)))
   \<and> full (Dataset_clear (Dataset_ctor make_empty make_empty slice_one make_empty))
       = Ok \<lparr>x_blocks = [None], y_blocks = [], labeled = False\<rparr>"
  by (simp add: has_full_def full_def Dataset_clear_def Dataset_ctor_def DataSlice_clear_def
      slice_one_def DataSlice_empty_def)

section \<open>A single block shares the input tables\<close>

text \<open>
  Claim C3. With \<open>num_blocks = 1\<close> both constructors return without touching the heap (no
  table is created, nothing is copied). \<open>x()\<close> returns the very handle passed in, and so does
  \<open>x_block(0)\<close> when that handle refers to a table; for the labeled constructor \<open>y()\<close> and
  \<open>y_block(0)\<close> return the label handle passed in in the same way.
\<close>

theorem single_block_shares_input_handles:
  "DataSlice_ctor_x e x 1 t h = (Ok \<lparr>x_blocks = [x], y_blocks = [], labeled = False\<rparr>, h)
   \<and> DataSlice_x \<lparr>x_blocks = [x], y_blocks = [], labeled = False\<rparr> = Ok x
   \<and> (x \<noteq> None \<longrightarrow> x_block \<lparr>x_blocks = [x], y_blocks = [], labeled = False\<rparr> 0 = Ok x)
   \<and> DataSlice_ctor_xy e x y 1 t h = (Ok \<lparr>x_blocks = [x], y_blocks = [y], labeled = True\<rparr>, h)
   \<and> DataSlice_x \<lparr>x_blocks = [x], y_blocks = [y], labeled = True\<rparr> = Ok x
   \<and> DataSlice_y \<lparr>x_blocks = [x], y_blocks = [y], labeled = True\<rparr> = Ok y
   \<and> (x \<noteq> None \<longrightarrow> x_block \<lparr>x_blocks = [x], y_blocks = [y], labeled = True\<rparr> 0 = Ok x)
   \<and> (y \<noteq> None \<longrightarrow> y_block \<lparr>x_blocks = [x], y_blocks = [y], labeled = True\<rparr> 0 = Ok y)"
  by (cases y)
     (simp_all add: DataSlice_ctor_x_def DataSlice_ctor_xy_def initialize_def DataSlice_x_def
       DataSlice_y_def x_block_def y_block_def)

text \<open>The two tables of the loaded heap, wrapped as one block.\<close>

theorem single_block_shares_input_handles_witness:
  "DataSlice_ctor_xy env_train_only (Some 0) (Some 1) 1 SyclHomogenNumericTableDouble loaded_heap
     = (Ok \<lparr>x_blocks = [Some 0], y_blocks = [Some 1], labeled = True\<rparr>, loaded_heap)
   \<and> x_block \<lparr>x_blocks = [Some 0], y_blocks = [Some 1], labeled = True\<rparr> 0 = Ok (Some 0)
   \<and> y_block \<lparr>x_blocks = [Some 0], y_blocks = [Some 1], labeled = True\<rparr> 0 = Ok (Some 1)
   \<and> DataSlice_ctor_x env_train_only (Some 0) 1 SyclHomogenNumericTableDouble loaded_heap
     = (Ok \<lparr>x_blocks = [Some 0], y_blocks = [], labeled = False\<rparr>, loaded_heap)
   \<and> x_block \<lparr>x_blocks = [Some 0], y_blocks = [], labeled = False\<rparr> 0 = Ok (Some 0)"
  using single_block_shares_input_handles
    [of env_train_only "Some 0" SyclHomogenNumericTableDouble loaded_heap "Some 1"]
  by simp

section \<open>Loading from CSV\<close>

lemma load_Ok_slices:
  assumes "load e c t h = (Ok d, h')"
  shows "\<exists>h1 h2 h3.
           load_slice e c (path_to_train c) t h = (Ok (train_slice d), h1)
           \<and> load_slice e c (path_to_test c) t h1 = (Ok (test_slice d), h2)
           \<and> load_slice e c (path_to_full c) t h2 = (Ok (full_slice d), h3)
           \<and> load_slice e c (path_to_index c) t h3 = (Ok (index_slice d), h')"
  using assms
  by (auto simp: load_def Dataset_ctor_def split: prod.splits result.splits)

lemma load_slice_unset: "load_slice e c [] t h = (Ok make_empty, h)"
  by (simp add: load_slice_def)

lemma DataSlice_empty_make_empty: "DataSlice_empty make_empty"
  by (simp add: DataSlice_empty_def make_empty_def)

lemma load_slice_unopenable:
  "path \<noteq> [] \<Longrightarrow> \<not> can_open_file e path \<Longrightarrow>
   load_slice e c path t h =
     (Throw (CannotOpenFile
        (join_sentences
           [''Cannot open dataset file '' @ [CHR 0x27] @ path @ [CHR 0x27],
            on_error_message c])), h)"
  by (simp add: load_slice_def)

lemma join_sentences_two:
  "a \<noteq> [] \<Longrightarrow> join_sentences [a, b] = (if b = [] then a @ ''. '' else a @ ''. '' @ b @ ''. '')"
  by (simp add: join_sentences_def)

lemma cannot_open_message_contains:
  "sublist path (join_sentences
      [''Cannot open dataset file '' @ [CHR 0x27] @ path @ [CHR 0x27], msg])"
  "sublist msg (join_sentences
      [''Cannot open dataset file '' @ [CHR 0x27] @ path @ [CHR 0x27], msg])"
proof -
  let ?m = "''Cannot open dataset file '' @ [CHR 0x27] @ path @ [CHR 0x27]"
  have ne: "?m \<noteq> []" by simp
  have j: "join_sentences [?m, msg] = (if msg = [] then ?m @ ''. '' else ?m @ ''. '' @ msg @ ''. '')"
    using ne by (rule join_sentences_two)
  have "sublist path (''Cannot open dataset file '' @ [CHR 0x27] @ path
                        @ ([CHR 0x27] @ (if msg = [] then ''. '' else ''. '' @ msg @ ''. '')))"
    using sublist_appendI
      [of path "''Cannot open dataset file '' @ [CHR 0x27]"
          "[CHR 0x27] @ (if msg = [] then ''. '' else ''. '' @ msg @ ''. '')"]
    by simp
  then show "sublist path (join_sentences [?m, msg])"
    unfolding j by (simp split: if_splits)
  show "sublist msg (join_sentences [?m, msg])"
  proof (cases "msg = []")
    case True
    then show ?thesis by simp
  next
    case False
    have "sublist msg ((?m @ ''. '') @ msg @ ''. '')" by (rule sublist_appendI)
    then show ?thesis unfolding j using False by simp
  qed
qed

text \<open>
  Claim C8. Loading an unset (empty) path returns the empty slice and leaves the heap as it
  is; whenever \<open>load\<close> returns a dataset, the accessor of each role whose path was unset
  throws \<open>EmptyNumericTable\<close>, and \<open>load\<close> does return a dataset, of four empty slices, when
  no path is set. Loading a path that is set and cannot be opened throws \<open>CannotOpenFile\<close>;
  the message is \<open>join_sentences\<close> of the sentence quoting the path and the configured
  diagnostic, and it contains the path and the diagnostic literally. \<open>load\<close> throws that
  \<open>CannotOpenFile\<close> for the train path, and for the test, full and index path once the
  roles before it have been loaded.
\<close>

theorem unset_path_empty_slice_unopenable_path_error:
  "load_slice e c [] t h = (Ok make_empty, h) \<and> DataSlice_empty make_empty
   \<and> (load e c t h = (Ok d, h') \<longrightarrow>
        (path_to_train c = [] \<longrightarrow>
           train d = Throw (EmptyNumericTable ''Train slice of the dataset is empty''))
        \<and> (path_to_test c = [] \<longrightarrow>
           test d = Throw (EmptyNumericTable ''Test slice of the dataset is empty''))
        \<and> (path_to_full c = [] \<longrightarrow>
           full d = Throw (EmptyNumericTable ''Full slice of the dataset is empty''))
        \<and> (path_to_index c = [] \<longrightarrow>
           index d = Throw (EmptyNumericTable ''Index slice of the dataset is empty'')))
   \<and> (path_to_train c = [] \<and> path_to_test c = [] \<and> path_to_full c = []
        \<and> path_to_index c = [] \<longrightarrow>
        load e c t h =
          (Ok ((Dataset_ctor make_empty make_empty make_empty make_empty)
                 \<lparr>num_responses := csv_num_responses c, num_tries := csv_num_tries c,
                  num_features := csv_num_features c\<rparr>), h))
   \<and> (path \<noteq> [] \<and> \<not> can_open_file e path \<longrightarrow>
        load_slice e c path t h =
          (Throw (CannotOpenFile
             (join_sentences
                [''Cannot open dataset file '' @ [CHR 0x27] @ path @ [CHR 0x27],
                 on_error_message c])), h)
        \<and> sublist path (join_sentences
                [''Cannot open dataset file '' @ [CHR 0x27] @ path @ [CHR 0x27],
                 on_error_message c])
        \<and> sublist (on_error_message c) (join_sentences
                [''Cannot open dataset file '' @ [CHR 0x27] @ path @ [CHR 0x27],
                 on_error_message c]))
   \<and> (path_to_train c \<noteq> [] \<and> \<not> can_open_file e (path_to_train c) \<longrightarrow>
        load e c t h =
          (Throw (CannotOpenFile
             (join_sentences
                [''Cannot open dataset file '' @ [CHR 0x27] @ path_to_train c @ [CHR 0x27],
                 on_error_message c])), h))
   \<and> (load_slice e c (path_to_train c) t h = (Ok s1, h1)
        \<and> path_to_test c \<noteq> [] \<and> \<not> can_open_file e (path_to_test c) \<longrightarrow>
        load e c t h =
          (Throw (CannotOpenFile
             (join_sentences
                [''Cannot open dataset file '' @ [CHR 0x27] @ path_to_test c @ [CHR 0x27],
                 on_error_message c])), h1))
   \<and> (load_slice e c (path_to_train c) t h = (Ok s1, h1)
        \<and> load_slice e c (path_to_test c) t h1 = (Ok s2, h2)
        \<and> path_to_full c \<noteq> [] \<and> \<not> can_open_file e (path_to_full c) \<longrightarrow>
        load e c t h =
          (Throw (CannotOpenFile
             (join_sentences
                [''Cannot open dataset file '' @ [CHR 0x27] @ path_to_full c @ [CHR 0x27],
                 on_error_message c])), h2))
   \<and> (load_slice e c (path_to_train c) t h = (Ok s1, h1)
        \<and> load_slice e c (path_to_test c) t h1 = (Ok s2, h2)
        \<and> load_slice e c (path_to_full c) t h2 = (Ok s3, h3)
        \<and> path_to_index c \<noteq> [] \<and> \<not> can_open_file e (path_to_index c) \<longrightarrow>
        load e c t h =
          (Throw (CannotOpenFile
             (join_sentences
                [''Cannot open dataset file '' @ [CHR 0x27] @ path_to_index c @ [CHR 0x27],
                 on_error_message c])), h3))"
proof (intro conjI impI)
  show "load_slice e c [] t h = (Ok make_empty, h)" by (rule load_slice_unset)
  show "DataSlice_empty make_empty" by (rule DataSlice_empty_make_empty)
next
  assume l: "load e c t h = (Ok d, h')"
  from load_Ok_slices [OF l] obtain h1 h2 h3 where
    s: "load_slice e c (path_to_train c) t h = (Ok (train_slice d), h1)"
       "load_slice e c (path_to_test c) t h1 = (Ok (test_slice d), h2)"
       "load_slice e c (path_to_full c) t h2 = (Ok (full_slice d), h3)"
       "load_slice e c (path_to_index c) t h3 = (Ok (index_slice d), h')"
    by blast
  { assume "path_to_train c = []"
    with s(1) have "train_slice d = make_empty" by (simp add: load_slice_unset)
    then show "train d = Throw (EmptyNumericTable ''Train slice of the dataset is empty'')"
      by (simp add: train_def DataSlice_empty_make_empty) }
  { assume "path_to_test c = []"
    with s(2) have "test_slice d = make_empty" by (simp add: load_slice_unset)
    then show "test d = Throw (EmptyNumericTable ''Test slice of the dataset is empty'')"
      by (simp add: test_def DataSlice_empty_make_empty) }
  { assume "path_to_full c = []"
    with s(3) have "full_slice d = make_empty" by (simp add: load_slice_unset)
    then show "full d = Throw (EmptyNumericTable ''Full slice of the dataset is empty'')"
      by (simp add: full_def DataSlice_empty_make_empty) }
  { assume "path_to_index c = []"
    with s(4) have "index_slice d = make_empty" by (simp add: load_slice_unset)
    then show "index d = Throw (EmptyNumericTable ''Index slice of the dataset is empty'')"
      by (simp add: index_def DataSlice_empty_make_empty) }
next
  assume "path_to_train c = [] \<and> path_to_test c = [] \<and> path_to_full c = []
            \<and> path_to_index c = []"
  then show "load e c t h =
          (Ok ((Dataset_ctor make_empty make_empty make_empty make_empty)
                 \<lparr>num_responses := csv_num_responses c, num_tries := csv_num_tries c,
                  num_features := csv_num_features c\<rparr>), h)"
    by (simp add: load_def load_slice_unset)
next
  assume "path \<noteq> [] \<and> \<not> can_open_file e path"
  then show "load_slice e c path t h =
          (Throw (CannotOpenFile
             (join_sentences
                [''Cannot open dataset file '' @ [CHR 0x27] @ path @ [CHR 0x27],
                 on_error_message c])), h)"
    by (simp add: load_slice_unopenable)
  show "sublist path (join_sentences
                [''Cannot open dataset file '' @ [CHR 0x27] @ path @ [CHR 0x27],
                 on_error_message c])"
    by (rule cannot_open_message_contains)
  show "sublist (on_error_message c) (join_sentences
                [''Cannot open dataset file '' @ [CHR 0x27] @ path @ [CHR 0x27],
                 on_error_message c])"
    by (rule cannot_open_message_contains)
next
  assume "path_to_train c \<noteq> [] \<and> \<not> can_open_file e (path_to_train c)"
  then have "load_slice e c (path_to_train c) t h =
          (Throw (CannotOpenFile
             (join_sentences
                [''Cannot open dataset file '' @ [CHR 0x27] @ path_to_train c @ [CHR 0x27],
                 on_error_message c])), h)"
    by (simp add: load_slice_unopenable)
  then show "load e c t h =
          (Throw (CannotOpenFile
             (join_sentences
                [''Cannot open dataset file '' @ [CHR 0x27] @ path_to_train c @ [CHR 0x27],
                 on_error_message c])), h)"
    by (simp add: load_def)
next
  assume a: "load_slice e c (path_to_train c) t h = (Ok s1, h1)
        \<and> path_to_test c \<noteq> [] \<and> \<not> can_open_file e (path_to_test c)"
  then have "load_slice e c (path_to_test c) t h1 =
          (Throw (CannotOpenFile
             (join_sentences
                [''Cannot open dataset file '' @ [CHR 0x27] @ path_to_test c @ [CHR 0x27],
                 on_error_message c])), h1)"
    by (simp add: load_slice_unopenable)
  then show "load e c t h =
          (Throw (CannotOpenFile
             (join_sentences
                [''Cannot open dataset file '' @ [CHR 0x27] @ path_to_test c @ [CHR 0x27],
                 on_error_message c])), h1)"
    using a by (simp add: load_def)
next
  assume a: "load_slice e c (path_to_train c) t h = (Ok s1, h1)
        \<and> load_slice e c (path_to_test c) t h1 = (Ok s2, h2)
        \<and> path_to_full c \<noteq> [] \<and> \<not> can_open_file e (path_to_full c)"
  then have "load_slice e c (path_to_full c) t h2 =
          (Throw (CannotOpenFile
             (join_sentences
                [''Cannot open dataset file '' @ [CHR 0x27] @ path_to_full c @ [CHR 0x27],
                 on_error_message c])), h2)"
    by (simp add: load_slice_unopenable)
  then show "load e c t h =
          (Throw (CannotOpenFile
             (join_sentences
                [''Cannot open dataset file '' @ [CHR 0x27] @ path_to_full c @ [CHR 0x27],
                 on_error_message c])), h2)"
    using a by (simp add: load_def)
next
  assume a: "load_slice e c (path_to_train c) t h = (Ok s1, h1)
        \<and> load_slice e c (path_to_test c) t h1 = (Ok s2, h2)
        \<and> load_slice e c (path_to_full c) t h2 = (Ok s3, h3)
        \<and> path_to_index c \<noteq> [] \<and> \<not> can_open_file e (path_to_index c)"
  then have "load_slice e c (path_to_index c) t h3 =
          (Throw (CannotOpenFile
             (join_sentences
                [''Cannot open dataset file '' @ [CHR 0x27] @ path_to_index c @ [CHR 0x27],
                 on_error_message c])), h3)"
    by (simp add: load_slice_unopenable)
  then show "load e c t h =
          (Throw (CannotOpenFile
             (join_sentences
                [''Cannot open dataset file '' @ [CHR 0x27] @ path_to_index c @ [CHR 0x27],
                 on_error_message c])), h3)"
    using a by (simp add: load_def)
qed

lemma load_slice_train_csv:
  assumes "csv_num_features c = 3" and "csv_num_responses c = 1" and "csv_num_blocks c = 1"
    and "csv_labeled c"
  shows "load_slice env_train_only c ''train.csv'' SyclHomogenNumericTableDouble empty_heap
     = (Ok \<lparr>x_blocks = [Some 0], y_blocks = [Some 1], labeled = True\<rparr>, loaded_heap)"
  using assms
  by (simp add: load_slice_def env_train_only_def empty_heap_def
      load_with_response_variable_def create_numeric_table_def loadDataBlock_def
      check_data_source_status_def DataSlice_ctor_xy_def initialize_def
      loaded_heap_def releaseBlockOfRows_def)

lemma load_train_only:
  "load env_train_only csv_config SyclHomogenNumericTableDouble empty_heap
     = (Ok loaded_dataset, loaded_heap)"
proof -
  have p: "path_to_train csv_config = ''train.csv''" "path_to_test csv_config = []"
    "path_to_full csv_config = []" "path_to_index csv_config = []"
    "csv_num_responses csv_config = 1" "csv_num_tries csv_config = 0"
    "csv_num_features csv_config = 3"
    by (simp_all add: csv_config_def)
  show ?thesis
    by (simp add: load_def p load_slice_train_csv csv_config_def load_slice_unset
          Dataset_ctor_def loaded_dataset_def)
qed

text \<open>
  Only the train path is set: \<open>load\<close> returns the loaded dataset, whose test, full and index
  accessors throw. With no path set \<open>load\<close> returns a dataset of four empty slices. The file
  \<open>missing.csv\<close> cannot be opened: loading it throws, and so does \<open>load\<close> when it is the
  train path, and, after the train file has been read, when it is the test, full or index
  path.
\<close>

theorem unset_path_empty_slice_unopenable_path_error_witness:
  "load env_train_only csv_config SyclHomogenNumericTableDouble empty_heap
     = (Ok loaded_dataset, loaded_heap)
   \<and> path_to_test csv_config = []
   \<and> test loaded_dataset = Throw (EmptyNumericTable ''Test slice of the dataset is empty'')
   \<and> full loaded_dataset = Throw (EmptyNumericTable ''Full slice of the dataset is empty'')
   \<and> index loaded_dataset = Throw (EmptyNumericTable ''Index slice of the dataset is empty'')
   \<and> \<not> can_open_file env_train_only ''missing.csv''
   \<and> load_slice env_train_only csv_config ''missing.csv'' SyclHomogenNumericTableDouble empty_heap
       = (Throw (CannotOpenFile
            (''Cannot open dataset file '' @ [CHR 0x27] @ ''missing.csv'' @ [CHR 0x27]
             @ ''. Run the download script. '')), empty_heap)
   \<and> sublist ''missing.csv''
        (''Cannot open dataset file '' @ [CHR 0x27] @ ''missing.csv'' @ [CHR 0x27]
             @ ''. Run the download script. '')
   \<and> sublist ''Run the download script''
        (''Cannot open dataset file '' @ [CHR 0x27] @ ''missing.csv'' @ [CHR 0x27]
             @ ''. Run the download script. '')
   \<and> load env_train_only (csv_config\<lparr>path_to_train := []\<rparr>) SyclHomogenNumericTableDouble
        empty_heap
       = (Ok ((Dataset_ctor make_empty make_empty make_empty make_empty)
                \<lparr>num_responses := 1, num_tries := 0, num_features := 3\<rparr>), empty_heap)
   \<and> load env_train_only (csv_config\<lparr>path_to_train := ''missing.csv''\<rparr>)
        SyclHomogenNumericTableDouble empty_heap
       = (Throw (CannotOpenFile
            (''Cannot open dataset file '' @ [CHR 0x27] @ ''missing.csv'' @ [CHR 0x27]
             @ ''. Run the download script. '')), empty_heap)
   \<and> load env_train_only (csv_config\<lparr>path_to_test := ''missing.csv''\<rparr>)
        SyclHomogenNumericTableDouble empty_heap
       = (Throw (CannotOpenFile
            (''Cannot open dataset file '' @ [CHR 0x27] @ ''missing.csv'' @ [CHR 0x27]
             @ ''. Run the download script. '')), loaded_heap)
   \<and> load env_train_only (csv_config\<lparr>path_to_full := ''missing.csv''\<rparr>)
        SyclHomogenNumericTableDouble empty_heap
       = (Throw (CannotOpenFile
            (''Cannot open dataset file '' @ [CHR 0x27] @ ''missing.csv'' @ [CHR 0x27]
             @ ''. Run the download script. '')), loaded_heap)
   \<and> load env_train_only (csv_config\<lparr>path_to_index := ''missing.csv''\<rparr>)
        SyclHomogenNumericTableDouble empty_heap
       = (Throw (CannotOpenFile
            (''Cannot open dataset file '' @ [CHR 0x27] @ ''missing.csv'' @ [CHR 0x27]
             @ ''. Run the download script. '')), loaded_heap)"
proof -
  let ?m = "''Cannot open dataset file '' @ [CHR 0x27] @ ''missing.csv'' @ [CHR 0x27]"
  let ?t = SyclHomogenNumericTableDouble
  let ?s = "\<lparr>x_blocks = [Some 0], y_blocks = [Some 1], labeled = True\<rparr>"
  have j: "join_sentences [?m, ''Run the download script'']
             = ?m @ ''. Run the download script. ''"
    by (simp add: join_sentences_def)
  have n: "''missing.csv'' \<noteq> [] \<and> \<not> can_open_file env_train_only ''missing.csv''"
    by (simp add: env_train_only_def)
  have p: "path_to_train csv_config = ''train.csv''"
    "path_to_test csv_config = []" "path_to_full csv_config = []"
    "path_to_index csv_config = []" "on_error_message csv_config = ''Run the download script''"
    "csv_num_responses csv_config = 1" "csv_num_tries csv_config = 0"
    "csv_num_features csv_config = 3" "csv_num_blocks csv_config = 1" "csv_labeled csv_config"
    by (simp_all add: csv_config_def)
  note r = unset_path_empty_slice_unopenable_path_error
    [where e = env_train_only and c = csv_config and t = ?t and h = empty_heap
       and d = loaded_dataset and h' = loaded_heap and path = "''missing.csv''"]
  from r load_train_only have 1:
    "test loaded_dataset = Throw (EmptyNumericTable ''Test slice of the dataset is empty'')"
    "full loaded_dataset = Throw (EmptyNumericTable ''Full slice of the dataset is empty'')"
    "index loaded_dataset = Throw (EmptyNumericTable ''Index slice of the dataset is empty'')"
    using p(2-4) by blast+
  from r n have 2:
    "load_slice env_train_only csv_config ''missing.csv'' ?t empty_heap
       = (Throw (CannotOpenFile (join_sentences [?m, on_error_message csv_config])), empty_heap)"
    "sublist ''missing.csv'' (join_sentences [?m, on_error_message csv_config])"
    "sublist (on_error_message csv_config) (join_sentences [?m, on_error_message csv_config])"
    by blast+
  have 3: "load env_train_only (csv_config\<lparr>path_to_train := []\<rparr>) ?t empty_heap
       = (Ok ((Dataset_ctor make_empty make_empty make_empty make_empty)
                \<lparr>num_responses := 1, num_tries := 0, num_features := 3\<rparr>), empty_heap)"
    using unset_path_empty_slice_unopenable_path_error
      [where e = env_train_only and c = "csv_config\<lparr>path_to_train := []\<rparr>" and t = ?t
         and h = empty_heap]
    by (simp add: p)
  have 4: "load env_train_only (csv_config\<lparr>path_to_train := ''missing.csv''\<rparr>) ?t empty_heap
       = (Throw (CannotOpenFile (join_sentences [?m, ''Run the download script''])), empty_heap)"
    using unset_path_empty_slice_unopenable_path_error
      [where e = env_train_only and c = "csv_config\<lparr>path_to_train := ''missing.csv''\<rparr>"
         and t = ?t and h = empty_heap] n
    by (simp add: p)
  have l1: "load_slice env_train_only (csv_config\<lparr>path_to_test := ''missing.csv''\<rparr>)
              ''train.csv'' ?t empty_heap = (Ok ?s, loaded_heap)"
    "load_slice env_train_only (csv_config\<lparr>path_to_full := ''missing.csv''\<rparr>)
              ''train.csv'' ?t empty_heap = (Ok ?s, loaded_heap)"
    "load_slice env_train_only (csv_config\<lparr>path_to_index := ''missing.csv''\<rparr>)
              ''train.csv'' ?t empty_heap = (Ok ?s, loaded_heap)"
    by (rule load_slice_train_csv; simp add: p)+
  have 5: "load env_train_only (csv_config\<lparr>path_to_test := ''missing.csv''\<rparr>) ?t empty_heap
       = (Throw (CannotOpenFile (join_sentences [?m, ''Run the download script''])), loaded_heap)"
    using unset_path_empty_slice_unopenable_path_error
      [where e = env_train_only and c = "csv_config\<lparr>path_to_test := ''missing.csv''\<rparr>"
         and t = ?t and h = empty_heap and ?s1.0 = ?s and ?h1.0 = loaded_heap] n l1(1)
    by (simp add: p)
  have 6: "load env_train_only (csv_config\<lparr>path_to_full := ''missing.csv''\<rparr>) ?t empty_heap
       = (Throw (CannotOpenFile (join_sentences [?m, ''Run the download script''])), loaded_heap)"
    using unset_path_empty_slice_unopenable_path_error
      [where e = env_train_only and c = "csv_config\<lparr>path_to_full := ''missing.csv''\<rparr>"
         and t = ?t and h = empty_heap and ?s1.0 = ?s and ?h1.0 = loaded_heap
         and ?s2.0 = make_empty and ?h2.0 = loaded_heap] n l1(2)
    by (simp add: p load_slice_unset)
  have 7: "load env_train_only (csv_config\<lparr>path_to_index := ''missing.csv''\<rparr>) ?t empty_heap
       = (Throw (CannotOpenFile (join_sentences [?m, ''Run the download script''])), loaded_heap)"
    using unset_path_empty_slice_unopenable_path_error
      [where e = env_train_only and c = "csv_config\<lparr>path_to_index := ''missing.csv''\<rparr>"
         and t = ?t and h = empty_heap and ?s1.0 = ?s and ?h1.0 = loaded_heap
         and ?s2.0 = make_empty and ?h2.0 = loaded_heap
         and ?s3.0 = make_empty and ?h3.0 = loaded_heap] n l1(3)
    by (simp add: p load_slice_unset)
  show ?thesis
    using load_train_only p(2) 1 n 2 [unfolded p(5) j] 3 4 [unfolded j] 5 [unfolded j]
      6 [unfolded j] 7 [unfolded j]
    by (intro conjI) simp_all
qed

text \<open>
  Claim C9. With the labeled flag set, a positive number of responses and no feature count,
  loading a set and openable path throws \<open>CannotLoadDataset\<close>; the heap is returned as it
  was: no table has been created and no file has been read by the CSV data source.
\<close>

theorem labeled_load_without_feature_count:
  assumes "csv_labeled c" and "0 < csv_num_responses c" and "csv_num_features c = 0"
    and "path \<noteq> []" and "can_open_file e path"
  shows "load_slice e c path t h =
           (Throw (CannotLoadDataset
              (''Cannot load dataset '' @ [CHR 0x27] @ path @ [CHR 0x27]
               @ '' with responses. Number of features undefined. To load CSV dataset with responses FeaturesNumber must be specified.'')), h)"
  using assms by (simp add: load_slice_def load_with_response_variable_def)

text \<open>The configuration above with its feature count reset to zero.\<close>

theorem labeled_load_without_feature_count_witness:
  "csv_labeled (csv_config\<lparr>csv_num_features := 0\<rparr>)
   \<and> 0 < csv_num_responses (csv_config\<lparr>csv_num_features := 0\<rparr>)
   \<and> csv_num_features (csv_config\<lparr>csv_num_features := 0\<rparr>) = 0
   \<and> can_open_file env_train_only ''train.csv''
   \<and> load_slice env_train_only (csv_config\<lparr>csv_num_features := 0\<rparr>) ''train.csv''
         SyclHomogenNumericTableFloat empty_heap
       = (Throw (CannotLoadDataset
            (''Cannot load dataset '' @ [CHR 0x27] @ ''train.csv'' @ [CHR 0x27]
             @ '' with responses. Number of features undefined. To load CSV dataset with responses FeaturesNumber must be specified.'')),
          empty_heap)"
proof -
  have a: "csv_labeled (csv_config\<lparr>csv_num_features := 0\<rparr>)"
    "0 < csv_num_responses (csv_config\<lparr>csv_num_features := 0\<rparr>)"
    "csv_num_features (csv_config\<lparr>csv_num_features := 0\<rparr>) = 0"
    "''train.csv'' \<noteq> []" "can_open_file env_train_only ''train.csv''"
    by (simp_all add: csv_config_def env_train_only_def)
  show ?thesis
    using a labeled_load_without_feature_count [OF a, of SyclHomogenNumericTableFloat empty_heap]
    by simp
qed

end
